theory Spec2Isabelle
  imports Main
begin

section \<open>Python values and the operations the clients use on them\<close>

text \<open>
  The three clients (\<^verbatim>\<open>twitter_api.py\<close>, \<^verbatim>\<open>indeed_api.py\<close>, \<^verbatim>\<open>yelp_api.py\<close>) work on
  decoded JSON: dictionaries, lists, strings, numbers, booleans and \<^verbatim>\<open>None\<close>. A
  dictionary is an association list (the first binding of a key is the one \<^verbatim>\<open>get\<close>
  sees). A float \<open>JFloat m e printed\<close> has the value \<open>m * 2 ^ e\<close> and carries the text Python
  prints for it, which the model does not compute; NaN and the infinities are left out.
  Strings are taken as ASCII.
\<close>

datatype json =
    JNull
  | JBool bool
  | JInt int
  | JFloat int int string
  | JStr string
  | JList "json list"
  | JDict "(string \<times> json) list"

text \<open>
  Exceptions are values. \<open>Exception msg\<close> is Python's generic base class, the only
  class the clients raise themselves (\<^verbatim>\<open>raise Exception(f"...")\<close>); the others are
  raised by the interpreter, by \<^verbatim>\<open>response.json()\<close> and by the HTTP transport.
\<close>

datatype error =
    Exception string
  | AttributeError
  | TypeError
  | KeyError
  | IndexError
  | JSONDecodeError
  | TransportError string

text \<open>
  An exception whose class is \<^verbatim>\<open>Exception\<close> itself has no type of its own: the only
  handler that selects it is the catch-all \<^verbatim>\<open>except Exception\<close> (the one \<^verbatim>\<open>main.py\<close>
  wraps every search in).
\<close>

definition is_catch_all :: "error \<Rightarrow> bool" where
  "is_catch_all e = (case e of Exception msg \<Rightarrow> True | _ \<Rightarrow> False)"

text \<open>Sequencing of computations that may raise.\<close>

definition bindE :: "error + 'a \<Rightarrow> ('a \<Rightarrow> error + 'b) \<Rightarrow> error + 'b" where
  "bindE m f = (case m of Inl e \<Rightarrow> Inl e | Inr x \<Rightarrow> f x)"

text \<open>Truth value of an object, as \<^verbatim>\<open>if x:\<close> and \<^verbatim>\<open>not x\<close> test it.\<close>

fun truthy :: "json \<Rightarrow> bool" where
  "truthy JNull = False"
| "truthy (JBool b) = b"
| "truthy (JInt i) = (i \<noteq> 0)"
| "truthy (JFloat m e printed) = (m \<noteq> 0)"
| "truthy (JStr s) = (s \<noteq> [])"
| "truthy (JList xs) = (xs \<noteq> [])"
| "truthy (JDict kvs) = (kvs \<noteq> [])"

text \<open>\<^verbatim>\<open>x.get(k, d)\<close>: only a dictionary has the method.\<close>

fun py_get :: "json \<Rightarrow> string \<Rightarrow> json \<Rightarrow> error + json" where
  "py_get (JDict kvs) k d = Inr (case map_of kvs k of Some v \<Rightarrow> v | None \<Rightarrow> d)"
| "py_get _ k d = Inl AttributeError"

text \<open>\<^verbatim>\<open>x.get(k1, {}).get(k2, {}) ...\<close>: a chain of lookups, each with its default.\<close>

fun py_get_path :: "json \<Rightarrow> (string \<times> json) list \<Rightarrow> error + json" where
  "py_get_path x [] = Inr x"
| "py_get_path x ((k, d) # ks) = bindE (py_get x k d) (\<lambda>y. py_get_path y ks)"

text \<open>\<^verbatim>\<open>x[k]\<close> with a string key.\<close>

fun py_index :: "json \<Rightarrow> string \<Rightarrow> error + json" where
  "py_index (JDict kvs) k = (case map_of kvs k of Some v \<Rightarrow> Inr v | None \<Rightarrow> Inl KeyError)"
| "py_index _ k = Inl TypeError"

definition is_prefix :: "string \<Rightarrow> string \<Rightarrow> bool" where
  "is_prefix pre s = (take (length pre) s = pre)"

fun is_substring :: "string \<Rightarrow> string \<Rightarrow> bool" where
  "is_substring xs [] = (xs = [])"
| "is_substring xs (y # ys) = (is_prefix xs (y # ys) \<or> is_substring xs ys)"

text \<open>\<^verbatim>\<open>k in x\<close> for a string \<open>k\<close>.\<close>

fun py_contains :: "string \<Rightarrow> json \<Rightarrow> error + bool" where
  "py_contains k (JDict kvs) = Inr (k \<in> set (map fst kvs))"
| "py_contains k (JList xs) = Inr (JStr k \<in> set xs)"
| "py_contains k (JStr s) = Inr (is_substring k s)"
| "py_contains k _ = Inl TypeError"

text \<open>
  The elements a \<^verbatim>\<open>for\<close> loop, a comprehension or \<^verbatim>\<open>list.extend\<close> visits: the items
  of a list, the keys of a dictionary, the characters of a string.
\<close>

fun py_iter :: "json \<Rightarrow> error + json list" where
  "py_iter (JList xs) = Inr xs"
| "py_iter (JDict kvs) = Inr (map (\<lambda>kv. JStr (fst kv)) kvs)"
| "py_iter (JStr s) = Inr (map (\<lambda>c. JStr [c]) s)"
| "py_iter _ = Inl TypeError"

fun py_len :: "json \<Rightarrow> error + int" where
  "py_len (JList xs) = Inr (int (length xs))"
| "py_len (JDict kvs) = Inr (int (length kvs))"
| "py_len (JStr s) = Inr (int (length s))"
| "py_len _ = Inl TypeError"

text \<open>\<^verbatim>\<open>sep.join(parts)\<close>: every part must be a string.\<close>

fun py_join :: "string \<Rightarrow> json list \<Rightarrow> error + string" where
  "py_join sep [] = Inr []"
| "py_join sep [JStr s] = Inr s"
| "py_join sep (JStr s # p # ps) = bindE (py_join sep (p # ps)) (\<lambda>r. Inr (s @ sep @ r))"
| "py_join sep _ = Inl TypeError"

text \<open>Decimal printing of an integer, as an f-string does it.\<close>

fun digits_of :: "nat \<Rightarrow> string" where
  "digits_of n =
     (if n < 10 then [''0123456789'' ! n]
      else digits_of (n div 10) @ [''0123456789'' ! (n mod 10)])"

declare digits_of.simps [simp del]

definition str_of_int :: "int \<Rightarrow> string" where
  "str_of_int i = (if i < 0 then CHR ''-'' # digits_of (nat (- i)) else digits_of (nat i))"

text \<open>
  \<^verbatim>\<open>repr(s)\<close> of a string: in single quotes, or in double quotes when the string holds a
  single quote and no double quote; the quote and the backslash are escaped, tab, newline
  and carriage return are written \<^verbatim>\<open>\t\<close>, \<^verbatim>\<open>\n\<close>, \<^verbatim>\<open>\r\<close>, and the other control
  characters in hexadecimal.
\<close>

definition repr_char :: "char \<Rightarrow> char \<Rightarrow> string" where
  "repr_char quote c =
     (if c = quote \<or> c = CHR 0x5C then [CHR 0x5C, c]
      else if c = CHR 0x09 then [CHR 0x5C, CHR ''t'']
      else if c = CHR 0x0A then [CHR 0x5C, CHR ''n'']
      else if c = CHR 0x0D then [CHR 0x5C, CHR ''r'']
      else if of_char c < (32 :: nat) \<or> c = CHR 0x7F then
        [CHR 0x5C, CHR ''x'', ''0123456789abcdef'' ! (of_char c div 16),
         ''0123456789abcdef'' ! (of_char c mod 16)]
      else [c])"

definition repr_str :: "string \<Rightarrow> string" where
  "repr_str s =
     (let quote = (if CHR 0x27 \<in> set s \<and> CHR 0x22 \<notin> set s then CHR 0x22 else CHR 0x27)
      in quote # concat (map (repr_char quote) s) @ [quote])"

fun join_strings :: "string \<Rightarrow> string list \<Rightarrow> string" where
  "join_strings sep [] = []"
| "join_strings sep [s] = s"
| "join_strings sep (s # t # ts) = s @ sep @ join_strings sep (t # ts)"

text \<open>\<^verbatim>\<open>repr(x)\<close>, which is how a value is printed inside a list or a dictionary.\<close>

fun py_repr :: "json \<Rightarrow> string" where
  "py_repr JNull = ''None''"
| "py_repr (JBool b) = (if b then ''True'' else ''False'')"
| "py_repr (JInt i) = str_of_int i"
| "py_repr (JFloat m e printed) = printed"
| "py_repr (JStr s) = repr_str s"
| "py_repr (JList xs) = ''['' @ join_strings '', '' (map py_repr xs) @ '']''"
| "py_repr (JDict kvs) =
     ''{'' @ join_strings '', '' (map (\<lambda>(k, v). repr_str k @ '': '' @ py_repr v) kvs) @ ''}''"

text \<open>What an f-string prints for a value: \<^verbatim>\<open>str(x)\<close>, which is the string itself for a
  string and \<^verbatim>\<open>repr(x)\<close> for everything else.\<close>

fun py_str :: "json \<Rightarrow> string" where
  "py_str (JStr s) = s"
| "py_str x = py_repr x"

definition keys_of :: "json \<Rightarrow> string set" where
  "keys_of x = (case x of JDict kvs \<Rightarrow> set (map fst kvs) | _ \<Rightarrow> {})"

section \<open>Indeed: the location formatter\<close>

text \<open>
  \<^verbatim>\<open>IndeedJobSearchAPI._format_location\<close>: city and state when present, the country
  only when neither is, and the literal \<^verbatim>\<open>Remote\<close> when nothing was collected.
\<close>

definition format_location :: "json \<Rightarrow> error + string" where
  "format_location location =
     bindE (py_get location ''city'' JNull) (\<lambda>city.
     bindE (if truthy city then bindE (py_index location ''city'') (\<lambda>v. Inr [v]) else Inr []) (\<lambda>parts1.
     bindE (py_get location ''state'' JNull) (\<lambda>state.
     bindE (if truthy state then bindE (py_index location ''state'') (\<lambda>v. Inr (parts1 @ [v]))
            else Inr parts1) (\<lambda>parts2.
     bindE (py_get location ''country'' JNull) (\<lambda>country.
     bindE (if truthy country \<and> \<not> (truthy city \<or> truthy state)
            then bindE (py_index location ''country'') (\<lambda>v. Inr (parts2 @ [v]))
            else Inr parts2) (\<lambda>parts.
     if parts \<noteq> [] then py_join '', '' parts else Inr ''Remote''))))))"

section \<open>The HTTP transport\<close>

text \<open>
  The transport (\<^verbatim>\<open>httpx.Client\<close>) and the markup parser (\<^verbatim>\<open>BeautifulSoup\<close>) are
  external. A request is what a client method puts on the wire; a response is what the
  client reads back from it: the status code, the raw text, what \<^verbatim>\<open>response.json()\<close>
  returns (\<open>None\<close> when the body does not decode and \<^verbatim>\<open>json()\<close> raises) and what the
  markup queries of the client find in \<^verbatim>\<open>BeautifulSoup(response.text)\<close>. The pacing
  delays (\<^verbatim>\<open>implement_rate_limiting\<close>) and the log messages change no value and are left
  out.
\<close>

datatype request =
    TwitterActivate
  | TwitterSearch string int "json option"
      \<comment> \<open>\<^verbatim>\<open>rawQuery\<close>, \<^verbatim>\<open>count\<close>, \<^verbatim>\<open>cursor\<close> (when one is sent)\<close>
  | IndeedHome
  | IndeedJobs string string int int
      \<comment> \<open>\<^verbatim>\<open>q\<close>, \<^verbatim>\<open>l\<close>, \<^verbatim>\<open>start\<close>, \<^verbatim>\<open>limit\<close>\<close>
  | IndeedGraphQL string string int int string string
      \<comment> \<open>\<^verbatim>\<open>keyword\<close>, \<^verbatim>\<open>location\<close>, \<^verbatim>\<open>page\<close>, \<^verbatim>\<open>pageSize\<close>, mosaic id, \<^verbatim>\<open>Indeed-CSRF-Token\<close>\<close>
  | YelpHome
  | YelpSearch string string int
      \<comment> \<open>\<^verbatim>\<open>find_desc\<close>, \<^verbatim>\<open>find_loc\<close>, \<^verbatim>\<open>start\<close>\<close>
  | YelpGraphQL string string int int string
      \<comment> \<open>\<^verbatim>\<open>term\<close>, \<^verbatim>\<open>location\<close>, \<^verbatim>\<open>offset\<close>, \<^verbatim>\<open>limit\<close>, \<^verbatim>\<open>X-CSRF-Token\<close>\<close>

text \<open>An element of a page: its text and its attributes.\<close>

record element =
  el_text :: string
  el_attrs :: "(string \<times> string) list"

text \<open>
  One \<^verbatim>\<open>div.job_seen_beacon\<close> of an Indeed results page: for each query
  \<^verbatim>\<open>_parse_html_results\<close> makes on the card, the element found (if any).
\<close>

record job_card =
  jc_title :: "element option"      \<comment> \<open>\<^verbatim>\<open>card.find('h2', class_='jobTitle')\<close>\<close>
  jc_link :: "element option"       \<comment> \<open>\<^verbatim>\<open>title_elem.find('a')\<close>\<close>
  jc_company :: "element option"    \<comment> \<open>\<^verbatim>\<open>card.find('span', class_='companyName')\<close>\<close>
  jc_location :: "element option"   \<comment> \<open>\<^verbatim>\<open>card.find('div', class_='companyLocation')\<close>\<close>
  jc_salary :: "element option"     \<comment> \<open>\<^verbatim>\<open>card.find('div', class_='salary-snippet')\<close>\<close>
  jc_snippet :: "element option"    \<comment> \<open>\<^verbatim>\<open>card.find('div', class_='job-snippet')\<close>\<close>
  jc_date :: "element option"       \<comment> \<open>\<^verbatim>\<open>card.find('span', class_='date')\<close>\<close>

text \<open>
  One \<^verbatim>\<open>div.businessName__09f24__EYSZE\<close> of a Yelp results page. The regular
  expression matches on the rating label, on the review count and on the price are part
  of the markup interface: the card carries the values they extract.
\<close>

record business_card =
  bc_container :: bool                       \<comment> \<open>\<^verbatim>\<open>card.find_parent(...)\<close> found a container\<close>
  bc_name :: "element option"                \<comment> \<open>\<^verbatim>\<open>card.find('a')\<close>\<close>
  bc_rating :: "error + json"
      \<comment> \<open>the value left in \<^verbatim>\<open>rating\<close>, or the exception of \<^verbatim>\<open>float(...)\<close>\<close>
  bc_review_count :: json                    \<comment> \<open>the value left in \<^verbatim>\<open>review_count\<close>\<close>
  bc_price :: "element option"               \<comment> \<open>\<^verbatim>\<open>container.find('span', string=...)\<close>\<close>
  bc_categories :: "element list"            \<comment> \<open>\<^verbatim>\<open>container.find_all('a', class_='categoryLink')\<close>\<close>
  bc_address :: "element option"             \<comment> \<open>\<^verbatim>\<open>container.find('address')\<close>\<close>

record html =
  csrf_meta :: "element option"
      \<comment> \<open>\<^verbatim>\<open>soup.find('meta', attrs={'id': 'indeed-csrf-token'})\<close>\<close>
  script_strings :: "string option list"
      \<comment> \<open>\<^verbatim>\<open>script.string\<close> of each \<^verbatim>\<open>soup.find_all('script')\<close>\<close>
  mosaic_provider :: "element option"
      \<comment> \<open>\<^verbatim>\<open>soup.find('div', attrs={'id': 'mosaic-provider-jobcards'})\<close>\<close>
  job_cards :: "job_card list"
      \<comment> \<open>\<^verbatim>\<open>soup.find_all('div', class_='job_seen_beacon')\<close>\<close>
  initial_state :: json
      \<comment> \<open>what the script loop of the Yelp \<^verbatim>\<open>search\<close> leaves in \<^verbatim>\<open>initial_data\<close>
         (\<^verbatim>\<open>None\<close> when no script matches and decodes)\<close>
  business_cards :: "business_card list"
      \<comment> \<open>\<^verbatim>\<open>soup.find_all('div', class_='businessName__09f24__EYSZE')\<close>\<close>

record response =
  status_code :: int
  body_text :: string
  json_body :: "json option"
  soup :: html

text \<open>
  The remote site answers a request knowing everything the client has asked before
  (the log, oldest first); \<open>Inl\<close> is an exception of the transport itself.
\<close>

type_synonym server = "request list \<Rightarrow> request \<Rightarrow> error + response"

definition send :: "server \<Rightarrow> request list \<Rightarrow> request \<Rightarrow> (error + response) \<times> request list" where
  "send srv log req = (srv log req, log @ [req])"

text \<open>\<^verbatim>\<open>response.json()\<close>.\<close>

definition json_of :: "response \<Rightarrow> error + json" where
  "json_of resp = (case json_body resp of Some j \<Rightarrow> Inr j | None \<Rightarrow> Inl JSONDecodeError)"

text \<open>What a generator call leaves behind: the records it yielded, the requests it made,
  and whether it ended normally or by an exception.\<close>

datatype outcome = Finished | Raised error

record run =
  yielded :: "json list"
  calls :: "request list"
  outcome :: outcome

datatype 's step = Continue 's | Stop run

section \<open>The Twitter client\<close>

text \<open>
  \<^verbatim>\<open>TwitterSearchAPI._obtain_guest_token\<close>: one POST to the activation endpoint. On
  status 200 the token is read from the body and its first characters are logged
  (\<^verbatim>\<open>guest_token[:5]\<close>, which raises unless the field is a string or a list: for
  \<^verbatim>\<open>None\<close>, a number or a boolean a \<^verbatim>\<open>TypeError\<close>, as modelled here for a dictionary
  too); any other status raises.
  The \<^verbatim>\<open>except\<close> clause logs and re-raises. The result is the token installed in
  \<^verbatim>\<open>self.headers\<close>.
\<close>

fun py_slice_ok :: "json \<Rightarrow> bool" where
  "py_slice_ok (JStr s) = True"
| "py_slice_ok (JList xs) = True"
| "py_slice_ok _ = False"

definition obtain_guest_token :: "server \<Rightarrow> request list \<Rightarrow> (error + json) \<times> request list" where
  "obtain_guest_token srv log =
     (case send srv log TwitterActivate of (r, log') \<Rightarrow>
        (case r of
           Inl e \<Rightarrow> Inl e
         | Inr resp \<Rightarrow>
             if status_code resp = 200 then
               bindE (json_of resp) (\<lambda>data.
               bindE (py_get data ''guest_token'' JNull) (\<lambda>guest_token.
               if py_slice_ok guest_token then Inr guest_token else Inl TypeError))
             else Inl (Exception (''Failed to obtain guest token: ''
                         @ str_of_int (status_code resp) @ '' '' @ body_text resp)),
         log'))"

text \<open>
  \<^verbatim>\<open>TwitterSearchAPI.search\<close>: one GET of the search operation. The cursor goes into
  the variables only when it is truthy. Status 200 returns the decoded body, any other
  status raises; the \<^verbatim>\<open>except\<close> clause logs and re-raises.
\<close>

definition twitter_search ::
  "server \<Rightarrow> request list \<Rightarrow> string \<Rightarrow> int \<Rightarrow> json \<Rightarrow> (error + json) \<times> request list" where
  "twitter_search srv log query count cursor =
     (case send srv log (TwitterSearch query count (if truthy cursor then Some cursor else None)) of
        (r, log') \<Rightarrow>
        (case r of
           Inl e \<Rightarrow> Inl e
         | Inr resp \<Rightarrow>
             if status_code resp = 200 then json_of resp
             else Inl (Exception (''Search failed: ''
                         @ str_of_int (status_code resp) @ '' '' @ body_text resp)),
         log'))"

text \<open>
  \<^verbatim>\<open>TwitterSearchAPI.extract_tweet_data\<close>. The dictionary display is evaluated in the
  order of its keys, so the first lookup that raises decides the exception.
\<close>

text \<open>\<^verbatim>\<open>[x.get(k) for x in xs]\<close>\<close>

fun get_each :: "string \<Rightarrow> json list \<Rightarrow> error + json list" where
  "get_each k [] = Inr []"
| "get_each k (x # xs) =
     bindE (py_get x k JNull) (\<lambda>v. bindE (get_each k xs) (\<lambda>vs. Inr (v # vs)))"

text \<open>\<^verbatim>\<open>[{k': x.get(k), ...} for x in xs]\<close>: each output key with the input key it reads.\<close>

fun get_fields :: "(string \<times> string) list \<Rightarrow> json \<Rightarrow> error + (string \<times> json) list" where
  "get_fields [] x = Inr []"
| "get_fields ((k', k) # ks) x =
     bindE (py_get x k JNull) (\<lambda>v. bindE (get_fields ks x) (\<lambda>kvs. Inr ((k', v) # kvs)))"

fun dict_each :: "(string \<times> string) list \<Rightarrow> json list \<Rightarrow> error + json list" where
  "dict_each ks [] = Inr []"
| "dict_each ks (x # xs) =
     bindE (get_fields ks x) (\<lambda>kvs. bindE (dict_each ks xs) (\<lambda>ds. Inr (JDict kvs # ds)))"

definition entities_of :: "json \<Rightarrow> error + json" where
  "entities_of legacy = py_get legacy ''entities'' (JDict [])"

definition extract_tweet_data :: "json \<Rightarrow> error + json" where
  "extract_tweet_data tweet =
     bindE (py_get tweet ''legacy'' (JDict [])) (\<lambda>legacy.
     bindE (py_get_path tweet [(''core'', JDict []), (''user_results'', JDict []),
                               (''result'', JDict []), (''legacy'', JDict [])]) (\<lambda>user.
     bindE (py_get tweet ''rest_id'' JNull) (\<lambda>rest_id.
     bindE (get_fields [(''created_at'', ''created_at''), (''text'', ''full_text''),
                        (''retweet_count'', ''retweet_count''),
                        (''favorite_count'', ''favorite_count''),
                        (''reply_count'', ''reply_count''),
                        (''quote_count'', ''quote_count'')] legacy) (\<lambda>counts.
     bindE (get_fields [(''id'', ''id_str''), (''name'', ''name''),
                        (''screen_name'', ''screen_name''),
                        (''followers_count'', ''followers_count''),
                        (''friends_count'', ''friends_count'')] user) (\<lambda>user_fields.
     bindE (py_get user ''verified'' (JBool False)) (\<lambda>verified.
     bindE (bindE (entities_of legacy) (\<lambda>en. bindE (py_get en ''hashtags'' (JList []))
              (\<lambda>hs. bindE (py_iter hs) (get_each ''text'')))) (\<lambda>hashtags.
     bindE (bindE (entities_of legacy) (\<lambda>en. bindE (py_get en ''urls'' (JList []))
              (\<lambda>us. bindE (py_iter us) (get_each ''expanded_url'')))) (\<lambda>urls.
     bindE (bindE (entities_of legacy) (\<lambda>en. bindE (py_get en ''user_mentions'' (JList []))
              (\<lambda>ms. bindE (py_iter ms)
                 (dict_each [(''screen_name'', ''screen_name''), (''name'', ''name''),
                             (''id'', ''id_str'')])))) (\<lambda>mentions.
     bindE (bindE (entities_of legacy) (\<lambda>en. bindE (py_contains ''media'' en) (\<lambda>has_media.
              if has_media then
                bindE (entities_of legacy) (\<lambda>en'. bindE (py_get en' ''media'' (JList []))
                  (\<lambda>ms. bindE (py_iter ms)
                     (dict_each [(''type'', ''type''), (''url'', ''media_url_https''),
                                 (''alt_text'', ''ext_alt_text'')])))
              else Inr []))) (\<lambda>media.
     Inr (JDict ([(''id'', rest_id)] @ counts @
                 [(''user'', JDict (user_fields @ [(''verified'', verified)])),
                  (''hashtags'', JList hashtags),
                  (''urls'', JList urls),
                  (''mentions'', JList mentions),
                  (''media'', JList media)]))))))))))))"

text \<open>
  The body of the \<^verbatim>\<open>while\<close> loop of \<^verbatim>\<open>TwitterSearchAPI.search_all\<close>, in the order of
  the source: the entries of the \<^verbatim>\<open>TimelineAddEntries\<close> instructions, the bottom cursor
  among them, then the tweets among them.
\<close>

fun collect_entries :: "json list \<Rightarrow> error + json list" where
  "collect_entries [] = Inr []"
| "collect_entries (instruction # rest) =
     bindE (py_get instruction ''type'' JNull) (\<lambda>t.
       if t = JStr ''TimelineAddEntries'' then
         bindE (py_get instruction ''entries'' (JList [])) (\<lambda>es.
         bindE (py_iter es) (\<lambda>xs.
         bindE (collect_entries rest) (\<lambda>more. Inr (xs @ more))))
       else collect_entries rest)"

definition timeline_entries :: "json \<Rightarrow> error + json list" where
  "timeline_entries response_data =
     bindE (py_get_path response_data
              [(''data'', JDict []), (''search_by_raw_query'', JDict []),
               (''search_timeline'', JDict []), (''timeline'', JDict []),
               (''instructions'', JList [])]) (\<lambda>instructions.
     bindE (py_iter instructions) collect_entries)"

fun find_cursor :: "json list \<Rightarrow> error + json" where
  "find_cursor [] = Inr JNull"
| "find_cursor (entry # rest) =
     bindE (py_get_path entry [(''content'', JDict []), (''entryType'', JNull)]) (\<lambda>t.
       if t = JStr ''TimelineTimelineCursor'' then
         bindE (py_get_path entry [(''content'', JDict []), (''cursorType'', JNull)]) (\<lambda>c.
           if c = JStr ''Bottom''
           then py_get_path entry [(''content'', JDict []), (''value'', JNull)]
           else find_cursor rest)
       else find_cursor rest)"

text \<open>The tweet an entry yields: none when the entry is no timeline item with a
  truthy result.\<close>

definition tweet_of_entry :: "json \<Rightarrow> error + json option" where
  "tweet_of_entry entry =
     bindE (py_get entry ''content'' (JDict [])) (\<lambda>content.
     bindE (py_get content ''entryType'' JNull) (\<lambda>t.
       if t = JStr ''TimelineTimelineItem'' then
         bindE (py_get content ''itemContent'' (JDict [])) (\<lambda>item.
         bindE (py_contains ''tweet_results'' item) (\<lambda>has_results.
           if has_results then
             bindE (py_get_path content [(''itemContent'', JDict []),
                      (''tweet_results'', JDict []), (''result'', JDict [])]) (\<lambda>tweet_data.
               if truthy tweet_data
               then bindE (extract_tweet_data tweet_data) (\<lambda>r. Inr (Some r))
               else Inr None)
           else Inr None))
       else Inr None))"

text \<open>The second \<^verbatim>\<open>for\<close> loop: the records yielded, and the exception that cut the loop
  short, if one did.\<close>

fun yield_tweets :: "json list \<Rightarrow> json list \<times> error option" where
  "yield_tweets [] = ([], None)"
| "yield_tweets (entry # rest) =
     (case tweet_of_entry entry of
        Inl e \<Rightarrow> ([], Some e)
      | Inr None \<Rightarrow> yield_tweets rest
      | Inr (Some r) \<Rightarrow> (case yield_tweets rest of (ys, err) \<Rightarrow> (r # ys, err)))"

record twitter_state =
  tw_count :: int           \<comment> \<open>\<^verbatim>\<open>results_count\<close>\<close>
  tw_cursor :: json         \<comment> \<open>\<^verbatim>\<open>cursor\<close>\<close>
  tw_yielded :: "json list"
  tw_calls :: "request list"

definition twitter_step :: "server \<Rightarrow> string \<Rightarrow> int \<Rightarrow> twitter_state \<Rightarrow> twitter_state step" where
  "twitter_step srv query max_results s =
     (let batch_size = min 20 (max_results - tw_count s) in
      if batch_size \<le> 0 then
        Stop \<lparr>yielded = tw_yielded s, calls = tw_calls s, outcome = Finished\<rparr>
      else
        (case twitter_search srv (tw_calls s) query batch_size (tw_cursor s) of
           (Inl e, log') \<Rightarrow> Stop \<lparr>yielded = tw_yielded s, calls = log', outcome = Raised e\<rparr>
         | (Inr response_data, log') \<Rightarrow>
             (case timeline_entries response_data of
                Inl e \<Rightarrow> Stop \<lparr>yielded = tw_yielded s, calls = log', outcome = Raised e\<rparr>
              | Inr entries \<Rightarrow>
                  (case find_cursor entries of
                     Inl e \<Rightarrow> Stop \<lparr>yielded = tw_yielded s, calls = log', outcome = Raised e\<rparr>
                   | Inr cursor \<Rightarrow>
                       (case yield_tweets entries of
                          (ys, Some e) \<Rightarrow>
                            Stop \<lparr>yielded = tw_yielded s @ ys, calls = log', outcome = Raised e\<rparr>
                        | (ys, None) \<Rightarrow>
                            (let results_count = tw_count s + int (length ys) in
                             if \<not> truthy cursor \<or> results_count \<ge> max_results then
                               Stop \<lparr>yielded = tw_yielded s @ ys, calls = log',
                                     outcome = Finished\<rparr>
                             else
                               Continue \<lparr>tw_count = results_count, tw_cursor = cursor,
                                         tw_yielded = tw_yielded s @ ys,
                                         tw_calls = log'\<rparr>))))))"

text \<open>
  The \<^verbatim>\<open>while\<close> loop. A batch with a cursor and no tweet leaves \<^verbatim>\<open>results_count\<close> as it
  was, so the loop need not end: a run that never returns is \<open>None\<close>.
\<close>

partial_function (option) twitter_loop ::
  "server \<Rightarrow> string \<Rightarrow> int \<Rightarrow> twitter_state \<Rightarrow> run option" where
  "twitter_loop srv query max_results s =
     (if tw_count s < max_results then
        (case twitter_step srv query max_results s of
           Continue s' \<Rightarrow> twitter_loop srv query max_results s'
         | Stop r \<Rightarrow> Some r)
      else Some \<lparr>yielded = tw_yielded s, calls = tw_calls s, outcome = Finished\<rparr>)"

declare twitter_loop.simps [code]

definition twitter_search_all :: "server \<Rightarrow> request list \<Rightarrow> string \<Rightarrow> int \<Rightarrow> run option" where
  "twitter_search_all srv log query max_results =
     twitter_loop srv query max_results
       \<lparr>tw_count = 0, tw_cursor = JNull, tw_yielded = [], tw_calls = log\<rparr>"

section \<open>The Indeed client\<close>

text \<open>
  The two regular expressions of the session bootstraps have the shape
  \<^verbatim>\<open>prefix([^"]+)"\<close>: the leftmost place where the prefix is followed by at least one
  character other than a double quote and then by a double quote; the group is that run.
\<close>

definition match_quoted_at :: "string \<Rightarrow> string \<Rightarrow> string option" where
  "match_quoted_at pre s =
     (if is_prefix pre s then
        (let rest = drop (length pre) s;
             tok = takeWhile (\<lambda>c. c \<noteq> CHR 0x22) rest;
             after = dropWhile (\<lambda>c. c \<noteq> CHR 0x22) rest
         in if tok \<noteq> [] \<and> after \<noteq> [] then Some tok else None)
      else None)"

fun re_search_quoted :: "string \<Rightarrow> string \<Rightarrow> string option" where
  "re_search_quoted pre [] = match_quoted_at pre []"
| "re_search_quoted pre (c # cs) =
     (case match_quoted_at pre (c # cs) of
        Some tok \<Rightarrow> Some tok
      | None \<Rightarrow> re_search_quoted pre cs)"

text \<open>The loop over the script tags: the first script that holds the marker and matches
  the expression gives the token.\<close>

fun scan_scripts :: "string \<Rightarrow> string \<Rightarrow> string option list \<Rightarrow> string option" where
  "scan_scripts marker pre [] = None"
| "scan_scripts marker pre (None # rest) = scan_scripts marker pre rest"
| "scan_scripts marker pre (Some str # rest) =
     (if str \<noteq> [] \<and> is_substring marker str then
        (case re_search_quoted pre str of
           Some tok \<Rightarrow> Some tok
         | None \<Rightarrow> scan_scripts marker pre rest)
      else scan_scripts marker pre rest)"

record indeed_client =
  in_csrf_token :: "string option"          \<comment> \<open>\<^verbatim>\<open>self.csrf_token\<close>\<close>
  in_indeed_csrf_token :: "string option"   \<comment> \<open>\<^verbatim>\<open>self.indeed_csrf_token\<close>\<close>

text \<open>
  \<^verbatim>\<open>IndeedJobSearchAPI._initialize_session\<close>: a status other than 200 raises; a missing
  token does not.
\<close>

definition indeed_initialize_session ::
  "server \<Rightarrow> request list \<Rightarrow> (error + indeed_client) \<times> request list" where
  "indeed_initialize_session srv log =
     (case send srv log IndeedHome of (r, log') \<Rightarrow>
        (case r of
           Inl e \<Rightarrow> Inl e
         | Inr resp \<Rightarrow>
             if status_code resp \<noteq> 200 then
               Inl (Exception (''Failed to initialize session: '' @ str_of_int (status_code resp)))
             else
               Inr \<lparr>in_csrf_token =
                      (case csrf_meta (soup resp) of
                         None \<Rightarrow> None
                       | Some m \<Rightarrow> map_of (el_attrs m) ''content''),
                    in_indeed_csrf_token =
                      scan_scripts ''window._initialData''
                        (CHR 0x22 # ''csrfToken'' @ [CHR 0x22, CHR '':'', CHR 0x22])
                        (script_strings (soup resp))\<rparr>,
         log'))"

text \<open>\<^verbatim>\<open>IndeedJobSearchAPI._parse_html_results\<close>: one record for each job card.\<close>

definition opt_text :: "element option \<Rightarrow> json" where
  "opt_text e = (case e of None \<Rightarrow> JNull | Some x \<Rightarrow> JStr (el_text x))"

definition opt_attr :: "element option \<Rightarrow> string \<Rightarrow> string option" where
  "opt_attr e k = (case e of None \<Rightarrow> None | Some x \<Rightarrow> map_of (el_attrs x) k)"

definition indeed_base_url :: string where
  "indeed_base_url = ''https://www.indeed.com''"

definition parse_job_card :: "job_card \<Rightarrow> json" where
  "parse_job_card jcard =
     (let title_elem = jc_title jcard;
          title = (case title_elem of Some t \<Rightarrow> JStr (el_text t) | None \<Rightarrow> JStr ''Unknown Title'');
          job_link = (case title_elem of Some t \<Rightarrow> jc_link jcard | None \<Rightarrow> None);
          job_url = (case opt_attr job_link ''href'' of
                       Some h \<Rightarrow> JStr (indeed_base_url @ h) | None \<Rightarrow> JNull);
          job_id = (case opt_attr job_link ''data-jk'' of Some k \<Rightarrow> JStr k | None \<Rightarrow> JNull);
          company = (case jc_company jcard of
                       Some c \<Rightarrow> JStr (el_text c) | None \<Rightarrow> JStr ''Unknown Company'');
          location = (case jc_location jcard of
                        Some l \<Rightarrow> JStr (el_text l) | None \<Rightarrow> JStr ''Unknown Location'');
          salary = opt_text (jc_salary jcard);
          snippet = opt_text (jc_snippet jcard);
          date = opt_text (jc_date jcard)
      in JDict [(''id'', job_id), (''title'', title), (''company'', company),
                (''location'', location), (''salary'', salary), (''description'', snippet),
                (''url'', job_url), (''date_posted'', date)])"

definition indeed_parse_html_results :: "html \<Rightarrow> json" where
  "indeed_parse_html_results page =
     (let results = map parse_job_card (job_cards page)
      in JDict [(''results'', JList results), (''count'', JInt (int (length results)))])"

text \<open>\<^verbatim>\<open>IndeedJobSearchAPI._search_graphql\<close>: raises without the GraphQL token, else one
  POST; a status other than 200 raises.\<close>

definition indeed_search_graphql ::
  "server \<Rightarrow> indeed_client \<Rightarrow> request list \<Rightarrow> string \<Rightarrow> string \<Rightarrow> int \<Rightarrow> int \<Rightarrow> string
     \<Rightarrow> (error + json) \<times> request list" where
  "indeed_search_graphql srv client log query location page limit mosaic_id =
     (case in_indeed_csrf_token client of
        None \<Rightarrow> (Inl (Exception ''GraphQL CSRF token not available''), log)
      | Some token \<Rightarrow>
          if token = [] then (Inl (Exception ''GraphQL CSRF token not available''), log)
          else
            (case send srv log (IndeedGraphQL query location page limit mosaic_id token) of
               (r, log') \<Rightarrow>
               (case r of
                  Inl e \<Rightarrow> Inl e
                | Inr resp \<Rightarrow>
                    if status_code resp = 200 then json_of resp
                    else Inl (Exception (''GraphQL search failed: ''
                                @ str_of_int (status_code resp) @ '' '' @ body_text resp)),
                log')))"

text \<open>
  \<^verbatim>\<open>IndeedJobSearchAPI.search\<close>: the results page is requested at
  \<^verbatim>\<open>start = page * limit\<close>. Without a mosaic id the page itself is parsed; with one,
  the GraphQL query follows.
\<close>

definition indeed_search ::
  "server \<Rightarrow> indeed_client \<Rightarrow> request list \<Rightarrow> string \<Rightarrow> string \<Rightarrow> int \<Rightarrow> int
     \<Rightarrow> (error + json) \<times> request list" where
  "indeed_search srv client log query location page limit =
     (case send srv log (IndeedJobs query location (page * limit) limit) of (r, log') \<Rightarrow>
        (case r of
           Inl e \<Rightarrow> (Inl e, log')
         | Inr resp \<Rightarrow>
             if status_code resp \<noteq> 200 then
               (Inl (Exception (''Search failed: '' @ str_of_int (status_code resp))), log')
             else
               (case opt_attr (mosaic_provider (soup resp)) ''data-mosaic-id'' of
                  None \<Rightarrow> (Inr (indeed_parse_html_results (soup resp)), log')
                | Some mosaic_id \<Rightarrow>
                    if mosaic_id = [] then (Inr (indeed_parse_html_results (soup resp)), log')
                    else indeed_search_graphql srv client log' query location page limit
                           mosaic_id)))"

text \<open>The record \<^verbatim>\<open>search_all\<close> builds from a job of the GraphQL response.\<close>

definition graphql_job_record :: "json \<Rightarrow> error + json" where
  "graphql_job_record job_data =
     bindE (py_get job_data ''key'' JNull) (\<lambda>key.
     bindE (py_get job_data ''title'' JNull) (\<lambda>title.
     bindE (py_get_path job_data [(''company'', JDict []), (''name'', JNull)]) (\<lambda>company.
     bindE (bindE (py_get job_data ''location'' (JDict [])) format_location) (\<lambda>location.
     bindE (py_get_path job_data [(''salarySnippet'', JDict []), (''text'', JNull)]) (\<lambda>salary.
     bindE (py_get job_data ''jobTypes'' (JList [])) (\<lambda>job_types.
     bindE (py_get job_data ''description'' JNull) (\<lambda>description.
     bindE (py_get job_data ''key'' JNull) (\<lambda>key'.
     bindE (py_get job_data ''postingDate'' JNull) (\<lambda>date_posted.
     Inr (JDict [(''id'', key), (''title'', title), (''company'', company),
                 (''location'', JStr location), (''salary'', salary),
                 (''job_types'', job_types), (''description'', description),
                 (''url'', JStr (indeed_base_url @ ''/viewjob?jk='' @ py_str key')),
                 (''date_posted'', date_posted)]))))))))))"

text \<open>What one job of a batch yields: a GraphQL job is rebuilt, a record parsed from the
  page is yielded as it is.\<close>

definition job_record :: "json \<Rightarrow> error + json" where
  "job_record job =
     bindE (py_contains ''job'' job) (\<lambda>is_graphql.
       if is_graphql then bindE (py_index job ''job'') graphql_job_record else Inr job)"

text \<open>The \<^verbatim>\<open>for\<close> loop over the jobs of a batch: it stops as soon as the count reaches the
  maximum. The result is the records yielded, the new count and the exception that cut
  the loop short, if one did.\<close>

fun yield_jobs :: "int \<Rightarrow> int \<Rightarrow> json list \<Rightarrow> json list \<times> int \<times> error option" where
  "yield_jobs max_results results_count [] = ([], results_count, None)"
| "yield_jobs max_results results_count (job # rest) =
     (case job_record job of
        Inl e \<Rightarrow> ([], results_count, Some e)
      | Inr r \<Rightarrow>
          if results_count + 1 \<ge> max_results then ([r], results_count + 1, None)
          else (case yield_jobs max_results (results_count + 1) rest of
                  (ys, n, err) \<Rightarrow> (r # ys, n, err)))"

text \<open>The jobs of a response and whether a next page is expected: from the page info of
  a GraphQL response, or from a full page of parsed records.\<close>

definition indeed_batch :: "json \<Rightarrow> int \<Rightarrow> error + json \<times> bool" where
  "indeed_batch response_data batch_size =
     bindE (py_contains ''data'' response_data) (\<lambda>has_data.
     bindE (if has_data
            then bindE (py_index response_data ''data'') (py_contains ''jobSearch'')
            else Inr False) (\<lambda>is_graphql.
       if is_graphql then
         bindE (py_index response_data ''data'') (\<lambda>d.
         bindE (py_index d ''jobSearch'') (\<lambda>js.
         bindE (py_index js ''results'') (\<lambda>jobs.
         bindE (py_index response_data ''data'') (\<lambda>d'.
         bindE (py_index d' ''jobSearch'') (\<lambda>js'.
         bindE (py_index js' ''pageInfo'') (\<lambda>page_info.
         bindE (py_index page_info ''nextPageToken'') (\<lambda>token.
         Inr (jobs, token \<noteq> JNull))))))))
       else
         bindE (py_get response_data ''results'' (JList [])) (\<lambda>jobs.
         bindE (py_len jobs) (\<lambda>n.
         Inr (jobs, n \<ge> batch_size)))))"

record indeed_state =
  in_count :: int           \<comment> \<open>\<^verbatim>\<open>results_count\<close>\<close>
  in_page :: int            \<comment> \<open>\<^verbatim>\<open>page\<close>\<close>
  in_yielded :: "json list"
  in_calls :: "request list"

definition page_size :: int where
  "page_size = 10"

definition indeed_step ::
  "server \<Rightarrow> indeed_client \<Rightarrow> string \<Rightarrow> string \<Rightarrow> int \<Rightarrow> indeed_state \<Rightarrow> indeed_state step" where
  "indeed_step srv client query location max_results s =
     (let batch_size = min page_size (max_results - in_count s) in
      if batch_size \<le> 0 then
        Stop \<lparr>yielded = in_yielded s, calls = in_calls s, outcome = Finished\<rparr>
      else
        (case indeed_search srv client (in_calls s) query location (in_page s) batch_size of
           (Inl e, log') \<Rightarrow> Stop \<lparr>yielded = in_yielded s, calls = log', outcome = Raised e\<rparr>
         | (Inr response_data, log') \<Rightarrow>
             (case indeed_batch response_data batch_size of
                Inl e \<Rightarrow> Stop \<lparr>yielded = in_yielded s, calls = log', outcome = Raised e\<rparr>
              | Inr (jobs, has_next_page) \<Rightarrow>
                  if \<not> truthy jobs then
                    Stop \<lparr>yielded = in_yielded s, calls = log', outcome = Finished\<rparr>
                  else
                    (case py_iter jobs of
                       Inl e \<Rightarrow>
                         Stop \<lparr>yielded = in_yielded s, calls = log', outcome = Raised e\<rparr>
                     | Inr items \<Rightarrow>
                         (case yield_jobs max_results (in_count s) items of
                            (ys, n, Some e) \<Rightarrow>
                              Stop \<lparr>yielded = in_yielded s @ ys, calls = log',
                                    outcome = Raised e\<rparr>
                          | (ys, n, None) \<Rightarrow>
                              if \<not> has_next_page \<or> n \<ge> max_results then
                                Stop \<lparr>yielded = in_yielded s @ ys, calls = log',
                                      outcome = Finished\<rparr>
                              else
                                Continue \<lparr>in_count = n, in_page = in_page s + 1,
                                          in_yielded = in_yielded s @ ys,
                                          in_calls = log'\<rparr>)))))"

text \<open>
  A batch that lets the loop go on has yielded at least one record: the count grows, and
  the \<^verbatim>\<open>while\<close> loop of \<^verbatim>\<open>IndeedJobSearchAPI.search_all\<close> ends.
\<close>

lemma yield_jobs_count:
  "yield_jobs m c items = (ys, n, err) \<Longrightarrow> n = c + int (length ys)"
proof (induction items arbitrary: c ys n err)
  case Nil
  then show ?case by simp
next
  case (Cons job rest)
  show ?case
  proof (cases "job_record job")
    case (Inl e)
    with Cons.prems show ?thesis by simp
  next
    case (Inr r)
    show ?thesis
    proof (cases "c + 1 \<ge> m")
      case True
      with Cons.prems Inr show ?thesis by auto
    next
      case False
      obtain ys' n' err' where rec: "yield_jobs m (c + 1) rest = (ys', n', err')"
        by (cases "yield_jobs m (c + 1) rest") auto
      from Cons.IH [OF rec] have "n' = c + 1 + int (length ys')" .
      with Cons.prems Inr False rec show ?thesis by auto
    qed
  qed
qed

lemma yield_jobs_progress:
  "yield_jobs m c items = (ys, n, None) \<Longrightarrow> items \<noteq> [] \<Longrightarrow> c < n"
  by (cases items) (auto split: sum.splits if_splits prod.splits dest: yield_jobs_count)

lemma truthy_iter_nonempty:
  "truthy j \<Longrightarrow> py_iter j = Inr items \<Longrightarrow> items \<noteq> []"
  by (cases j) auto

lemma indeed_step_progress:
  assumes "indeed_step srv client query location m s = Continue s'"
  shows "in_count s < in_count s'"
  using assms
  by (auto simp: indeed_step_def Let_def
      split: if_splits prod.splits sum.splits option.splits
      dest!: yield_jobs_progress truthy_iter_nonempty)

function indeed_loop ::
  "server \<Rightarrow> indeed_client \<Rightarrow> string \<Rightarrow> string \<Rightarrow> int \<Rightarrow> indeed_state \<Rightarrow> run" where
  "indeed_loop srv client query location max_results s =
     (if in_count s < max_results then
        (case indeed_step srv client query location max_results s of
           Continue s' \<Rightarrow> indeed_loop srv client query location max_results s'
         | Stop r \<Rightarrow> r)
      else \<lparr>yielded = in_yielded s, calls = in_calls s, outcome = Finished\<rparr>)"
  by pat_completeness auto
termination
proof (relation "measure (\<lambda>(srv, client, query, location, m, s). nat (m - in_count s))")
  show "wf (measure (\<lambda>(srv, client, query, location, m, s). nat (m - in_count s)))"
    by simp
next
  fix srv client query location max_results s s'
  assume "in_count s < max_results"
    and "indeed_step srv client query location max_results s = Continue s'"
  then show "((srv, client, query, location, max_results, s'),
              (srv, client, query, location, max_results, s))
             \<in> measure (\<lambda>(srv, client, query, location, m, s). nat (m - in_count s))"
    using indeed_step_progress by fastforce
qed

declare indeed_loop.simps [simp del]

definition indeed_search_all ::
  "server \<Rightarrow> indeed_client \<Rightarrow> request list \<Rightarrow> string \<Rightarrow> string \<Rightarrow> int \<Rightarrow> run" where
  "indeed_search_all srv client log query location max_results =
     indeed_loop srv client query location max_results
       \<lparr>in_count = 0, in_page = 0, in_yielded = [], in_calls = log\<rparr>"

section \<open>The Yelp client\<close>

record yelp_client =
  yp_csrf_token :: "string option"   \<comment> \<open>\<^verbatim>\<open>self.csrf_token\<close>\<close>

text \<open>\<^verbatim>\<open>YelpBusinessSearchAPI._initialize_session\<close>: a status other than 200 raises; a
  missing token does not.\<close>

definition yelp_initialize_session ::
  "server \<Rightarrow> request list \<Rightarrow> (error + yelp_client) \<times> request list" where
  "yelp_initialize_session srv log =
     (case send srv log YelpHome of (r, log') \<Rightarrow>
        (case r of
           Inl e \<Rightarrow> Inl e
         | Inr resp \<Rightarrow>
             if status_code resp \<noteq> 200 then
               Inl (Exception (''Failed to initialize session: '' @ str_of_int (status_code resp)))
             else
               Inr \<lparr>yp_csrf_token =
                      scan_scripts ''yelp.www.init.csrf''
                        (''csrf: '' @ [CHR 0x22]) (script_strings (soup resp))\<rparr>,
         log'))"

definition yelp_base_url :: string where
  "yelp_base_url = ''https://www.yelp.com''"

text \<open>\<^verbatim>\<open>x[0]\<close>\<close>

fun py_first :: "json \<Rightarrow> error + json" where
  "py_first (JList []) = Inl IndexError"
| "py_first (JList (x # xs)) = Inr x"
| "py_first (JStr []) = Inl IndexError"
| "py_first (JStr (c # cs)) = Inr (JStr [c])"
| "py_first (JDict kvs) = Inl KeyError"
| "py_first _ = Inl TypeError"

text \<open>\<^verbatim>\<open>YelpBusinessSearchAPI._extract_from_initial_state\<close>: one record for each search
  result of type \<^verbatim>\<open>business\<close>.\<close>

definition initial_state_business :: "json \<Rightarrow> error + json" where
  "initial_state_business business_data =
     bindE (get_fields [(''id'', ''id''), (''name'', ''name'')] business_data) (\<lambda>id_name.
     bindE (py_get business_data ''businessUrl'' JNull) (\<lambda>business_url.
     bindE (get_fields [(''image_url'', ''photoPageUrl''), (''review_count'', ''reviewCount''),
                        (''rating'', ''rating''), (''price'', ''priceRange'')]
              business_data) (\<lambda>details.
     bindE (bindE (py_get business_data ''categories'' (JList [])) (\<lambda>cs.
              bindE (py_iter cs) (dict_each [(''title'', ''title''), (''alias'', ''alias'')])))
           (\<lambda>categories.
     bindE (py_get business_data ''formattedAddress'' JNull) (\<lambda>address1.
     bindE (bindE (py_get business_data ''neighborhoods'' (JList [JNull])) py_first) (\<lambda>city.
     bindE (py_get business_data ''formattedAddress'' JNull) (\<lambda>display_address.
     bindE (get_fields [(''phone'', ''phone''), (''distance'', ''distance'')] business_data)
           (\<lambda>phone_distance.
     Inr (JDict (id_name @
                 [(''url'', JStr (yelp_base_url @ py_str business_url))] @ details @
                 [(''categories'', JList categories),
                  (''location'', JDict [(''address1'', address1), (''city'', city),
                                        (''state'', JNull), (''zip_code'', JNull),
                                        (''display_address'', display_address)])] @
                 phone_distance))))))))))"

fun initial_state_businesses :: "json list \<Rightarrow> error + json list" where
  "initial_state_businesses [] = Inr []"
| "initial_state_businesses (business # rest) =
     bindE (py_get business ''type'' JNull) (\<lambda>t.
       if t \<noteq> JStr ''business'' then initial_state_businesses rest
       else
         bindE (py_get business ''business'' (JDict [])) (\<lambda>business_data.
         bindE (initial_state_business business_data) (\<lambda>b.
         bindE (initial_state_businesses rest) (\<lambda>bs. Inr (b # bs)))))"

definition extract_from_initial_state :: "json \<Rightarrow> error + json" where
  "extract_from_initial_state initial_data =
     bindE (py_get initial_data ''searchPageProps'' (JDict [])) (\<lambda>search_page_props.
     bindE (py_get search_page_props ''searchResultsProps'' (JDict [])) (\<lambda>search_results.
     bindE (py_get search_results ''searchResponse'' (JDict [])) (\<lambda>search_response.
     bindE (py_get search_response ''searchResults'' (JList [])) (\<lambda>results.
     bindE (py_iter results) (\<lambda>items.
     bindE (initial_state_businesses items) (\<lambda>businesses.
     bindE (py_get search_response ''totalResults'' (JInt (int (length businesses)))) (\<lambda>total_results.
     bindE (py_get_path search_page_props [(''mapState'', JDict []), (''center'', JDict []),
                                           (''latitude'', JNull)]) (\<lambda>latitude.
     bindE (py_get_path search_page_props [(''mapState'', JDict []), (''center'', JDict []),
                                           (''longitude'', JNull)]) (\<lambda>longitude.
     Inr (JDict [(''businesses'', JList businesses), (''total'', total_results),
                 (''region'', JDict [(''center'',
                    JDict [(''latitude'', latitude), (''longitude'', longitude)])])]))))))))))"

text \<open>
  \<^verbatim>\<open>YelpBusinessSearchAPI._parse_html_results\<close>: one record for each business card that
  has a container and on which no extraction raises. The business id is the group of
  \<^verbatim>\<open>/biz/([^?]+)\<close> in the URL; the alias of a category is the last segment of its link.
\<close>

definition match_biz_at :: "string \<Rightarrow> string option" where
  "match_biz_at s =
     (if is_prefix ''/biz/'' s then
        (let tok = takeWhile (\<lambda>c. c \<noteq> CHR ''?'') (drop 5 s)
         in if tok \<noteq> [] then Some tok else None)
      else None)"

fun re_search_biz :: "string \<Rightarrow> string option" where
  "re_search_biz [] = None"
| "re_search_biz (c # cs) =
     (case match_biz_at (c # cs) of Some tok \<Rightarrow> Some tok | None \<Rightarrow> re_search_biz cs)"

definition last_segment :: "string \<Rightarrow> string" where
  "last_segment s = rev (takeWhile (\<lambda>c. c \<noteq> CHR ''/'') (rev s))"

definition parse_category :: "element \<Rightarrow> json" where
  "parse_category cat_elem =
     JDict [(''title'', JStr (el_text cat_elem)),
            (''alias'', (case map_of (el_attrs cat_elem) ''href'' of
                           Some h \<Rightarrow> JStr (last_segment h) | None \<Rightarrow> JNull))]"

definition parse_business_card :: "business_card \<Rightarrow> json option" where
  "parse_business_card bcard =
     (if \<not> bc_container bcard then None
      else
        (case bc_rating bcard of
           Inl e \<Rightarrow> None
         | Inr rating \<Rightarrow>
             (let name_elem = bc_name bcard;
                  name = (case name_elem of
                            Some a \<Rightarrow> JStr (el_text a) | None \<Rightarrow> JStr ''Unknown Business'');
                  url = (case opt_attr name_elem ''href'' of
                           Some h \<Rightarrow> Some (yelp_base_url @ h) | None \<Rightarrow> None);
                  business_id = (case url of
                                   Some u \<Rightarrow> (if u \<noteq> [] then
                                                (case re_search_biz u of
                                                   Some i \<Rightarrow> JStr i | None \<Rightarrow> JNull)
                                              else JNull)
                                 | None \<Rightarrow> JNull)
              in Some (JDict [(''id'', business_id), (''name'', name),
                              (''url'', (case url of Some u \<Rightarrow> JStr u | None \<Rightarrow> JNull)),
                              (''image_url'', JNull),
                              (''review_count'', bc_review_count bcard),
                              (''rating'', rating),
                              (''price'', opt_text (bc_price bcard)),
                              (''categories'', JList (map parse_category (bc_categories bcard))),
                              (''location'',
                                 JDict [(''display_address'', opt_text (bc_address bcard))]),
                              (''phone'', JNull)]))))"

definition yelp_parse_html_results :: "html \<Rightarrow> json" where
  "yelp_parse_html_results page =
     (let businesses = List.map_filter parse_business_card (business_cards page)
      in JDict [(''businesses'', JList businesses),
                (''total'', JInt (int (length businesses))),
                (''region'', JDict [(''center'',
                   JDict [(''latitude'', JNull), (''longitude'', JNull)])])])"

text \<open>
  \<^verbatim>\<open>YelpBusinessSearchAPI.search\<close>: one GET of the results page at \<^verbatim>\<open>start = offset\<close>.
  The limit is an argument of the method but not a parameter of the request. The
  businesses come from the initial state embedded in the page when there is one, and
  from the markup otherwise.
\<close>

definition yelp_search ::
  "server \<Rightarrow> request list \<Rightarrow> string \<Rightarrow> string \<Rightarrow> int \<Rightarrow> int \<Rightarrow> (error + json) \<times> request list" where
  "yelp_search srv log term location offset limit =
     (case send srv log (YelpSearch term location offset) of (r, log') \<Rightarrow>
        (case r of
           Inl e \<Rightarrow> Inl e
         | Inr resp \<Rightarrow>
             if status_code resp \<noteq> 200 then
               Inl (Exception (''Search failed: '' @ str_of_int (status_code resp)))
             else
               (let initial_data = initial_state (soup resp) in
                bindE (if truthy initial_data
                       then py_contains ''searchPageProps'' initial_data
                       else Inr False) (\<lambda>has_props.
                  if has_props then extract_from_initial_state initial_data
                  else Inr (yelp_parse_html_results (soup resp)))),
         log'))"

text \<open>
  \<^verbatim>\<open>YelpBusinessSearchAPI.search_graphql\<close>: raises without the CSRF token. Otherwise one
  POST; whatever goes wrong with it (transport, status, decoding) is caught, and the
  method returns what \<^verbatim>\<open>search\<close> returns for the same arguments.
\<close>

definition yelp_search_graphql ::
  "server \<Rightarrow> yelp_client \<Rightarrow> request list \<Rightarrow> string \<Rightarrow> string \<Rightarrow> int \<Rightarrow> int
     \<Rightarrow> (error + json) \<times> request list" where
  "yelp_search_graphql srv client log term location offset limit =
     (case yp_csrf_token client of
        None \<Rightarrow> (Inl (Exception ''CSRF token not available''), log)
      | Some token \<Rightarrow>
          if token = [] then (Inl (Exception ''CSRF token not available''), log)
          else
            (case send srv log (YelpGraphQL term location offset limit token) of
               (r, log') \<Rightarrow>
               (case (case r of
                        Inl e \<Rightarrow> Inl e
                      | Inr resp \<Rightarrow>
                          if status_code resp = 200 then json_of resp
                          else Inl (Exception (''GraphQL search failed: ''
                                 @ str_of_int (status_code resp) @ '' '' @ body_text resp))) of
                  Inr data \<Rightarrow> (Inr data, log')
                | Inl e \<Rightarrow> yelp_search srv log' term location offset limit)))"

text \<open>
  The \<^verbatim>\<open>try\<close> statement of \<^verbatim>\<open>YelpBusinessSearchAPI.search_all\<close>: the businesses and the
  total of a batch, read from the GraphQL response under \<^verbatim>\<open>data.search\<close>, and on any
  exception from the response of \<^verbatim>\<open>search\<close> under \<^verbatim>\<open>businesses\<close> and \<^verbatim>\<open>total\<close>.
\<close>

definition yelp_page_batch ::
  "server \<Rightarrow> request list \<Rightarrow> string \<Rightarrow> string \<Rightarrow> int \<Rightarrow> int
     \<Rightarrow> (error + json \<times> json) \<times> request list" where
  "yelp_page_batch srv log term location offset batch_size =
     (case yelp_search srv log term location offset batch_size of
        (Inl e, log') \<Rightarrow> (Inl e, log')
      | (Inr response_data, log') \<Rightarrow>
          (bindE (py_get response_data ''businesses'' (JList [])) (\<lambda>businesses.
           bindE (py_get response_data ''total'' (JInt 0)) (\<lambda>total_results.
           Inr (businesses, total_results))), log'))"

definition yelp_batch ::
  "server \<Rightarrow> yelp_client \<Rightarrow> request list \<Rightarrow> string \<Rightarrow> string \<Rightarrow> int \<Rightarrow> int
     \<Rightarrow> (error + json \<times> json) \<times> request list" where
  "yelp_batch srv client log term location offset batch_size =
     (case yelp_search_graphql srv client log term location offset batch_size of
        (Inl e, log') \<Rightarrow> yelp_page_batch srv log' term location offset batch_size
      | (Inr response_data, log') \<Rightarrow>
          (case bindE (py_get_path response_data
                         [(''data'', JDict []), (''search'', JDict []),
                          (''business'', JList [])]) (\<lambda>businesses.
                bindE (py_get_path response_data
                         [(''data'', JDict []), (''search'', JDict []),
                          (''total'', JInt 0)]) (\<lambda>total_results.
                Inr (businesses, total_results))) of
             Inr bt \<Rightarrow> (Inr bt, log')
           | Inl e \<Rightarrow> yelp_page_batch srv log' term location offset batch_size))"

text \<open>The \<^verbatim>\<open>for\<close> loop over the businesses of a batch: it stops as soon as the count
  reaches the maximum.\<close>

fun yield_businesses :: "int \<Rightarrow> int \<Rightarrow> json list \<Rightarrow> json list \<times> int" where
  "yield_businesses max_results results_count [] = ([], results_count)"
| "yield_businesses max_results results_count (business # rest) =
     (if results_count + 1 \<ge> max_results then ([business], results_count + 1)
      else (case yield_businesses max_results (results_count + 1) rest of
              (ys, n) \<Rightarrow> (business # ys, n)))"

text \<open>\<^verbatim>\<open>n >= x\<close> for an integer \<open>n\<close>: only a number compares; a float is compared by
  its value.\<close>

fun py_ge :: "int \<Rightarrow> json \<Rightarrow> error + bool" where
  "py_ge n (JInt t) = Inr (n \<ge> t)"
| "py_ge n (JBool b) = Inr (n \<ge> (if b then 1 else 0))"
| "py_ge n (JFloat m e printed) =
     Inr (if e \<ge> 0 then n \<ge> m * 2 ^ nat e else n * 2 ^ nat (- e) \<ge> m)"
| "py_ge n _ = Inl TypeError"

record yelp_state =
  yp_count :: int           \<comment> \<open>\<^verbatim>\<open>results_count\<close>\<close>
  yp_offset :: int          \<comment> \<open>\<^verbatim>\<open>offset\<close>\<close>
  yp_yielded :: "json list"
  yp_calls :: "request list"

definition yelp_step ::
  "server \<Rightarrow> yelp_client \<Rightarrow> string \<Rightarrow> string \<Rightarrow> int \<Rightarrow> yelp_state \<Rightarrow> yelp_state step" where
  "yelp_step srv client term location max_results s =
     (let batch_size = min page_size (max_results - yp_count s) in
      if batch_size \<le> 0 then
        Stop \<lparr>yielded = yp_yielded s, calls = yp_calls s, outcome = Finished\<rparr>
      else
        (case yelp_batch srv client (yp_calls s) term location (yp_offset s) batch_size of
           (Inl e, log') \<Rightarrow> Stop \<lparr>yielded = yp_yielded s, calls = log', outcome = Raised e\<rparr>
         | (Inr (businesses, total_results), log') \<Rightarrow>
             if \<not> truthy businesses then
               Stop \<lparr>yielded = yp_yielded s, calls = log', outcome = Finished\<rparr>
             else
               (case py_iter businesses of
                  Inl e \<Rightarrow> Stop \<lparr>yielded = yp_yielded s, calls = log', outcome = Raised e\<rparr>
                | Inr items \<Rightarrow>
                    (case yield_businesses max_results (yp_count s) items of
                       (ys, n) \<Rightarrow>
                         (case py_ge n total_results of
                            Inl e \<Rightarrow>
                              Stop \<lparr>yielded = yp_yielded s @ ys, calls = log',
                                    outcome = Raised e\<rparr>
                          | Inr reached \<Rightarrow>
                              if reached \<or> n \<ge> max_results then
                                Stop \<lparr>yielded = yp_yielded s @ ys, calls = log',
                                      outcome = Finished\<rparr>
                              else
                                Continue \<lparr>yp_count = n, yp_offset = yp_offset s + batch_size,
                                          yp_yielded = yp_yielded s @ ys,
                                          yp_calls = log'\<rparr>)))))"

lemma yield_businesses_count:
  "yield_businesses m c items = (ys, n) \<Longrightarrow> n = c + int (length ys)"
proof (induction items arbitrary: c ys n)
  case Nil
  then show ?case by simp
next
  case (Cons b rest)
  show ?case
  proof (cases "c + 1 \<ge> m")
    case True
    with Cons.prems show ?thesis by auto
  next
    case False
    obtain ys' n' where rec: "yield_businesses m (c + 1) rest = (ys', n')"
      by (cases "yield_businesses m (c + 1) rest") auto
    from Cons.IH [OF rec] have "n' = c + 1 + int (length ys')" .
    with Cons.prems False rec show ?thesis by auto
  qed
qed

lemma yield_businesses_progress:
  "yield_businesses m c items = (ys, n) \<Longrightarrow> items \<noteq> [] \<Longrightarrow> c < n"
  by (cases items) (auto split: if_splits prod.splits dest: yield_businesses_count)

lemma yelp_step_progress:
  assumes "yelp_step srv client term location m s = Continue s'"
  shows "yp_count s < yp_count s'"
  using assms
  by (auto simp: yelp_step_def Let_def
      split: if_splits prod.splits sum.splits
      dest!: yield_businesses_progress truthy_iter_nonempty)

function yelp_loop ::
  "server \<Rightarrow> yelp_client \<Rightarrow> string \<Rightarrow> string \<Rightarrow> int \<Rightarrow> yelp_state \<Rightarrow> run" where
  "yelp_loop srv client term location max_results s =
     (if yp_count s < max_results then
        (case yelp_step srv client term location max_results s of
           Continue s' \<Rightarrow> yelp_loop srv client term location max_results s'
         | Stop r \<Rightarrow> r)
      else \<lparr>yielded = yp_yielded s, calls = yp_calls s, outcome = Finished\<rparr>)"
  by pat_completeness auto
termination
proof (relation "measure (\<lambda>(srv, client, term, location, m, s). nat (m - yp_count s))")
  show "wf (measure (\<lambda>(srv, client, term, location, m, s). nat (m - yp_count s)))"
    by simp
next
  fix srv client "term" location max_results s s'
  assume "yp_count s < max_results"
    and "yelp_step srv client term location max_results s = Continue s'"
  then show "((srv, client, term, location, max_results, s'),
              (srv, client, term, location, max_results, s))
             \<in> measure (\<lambda>(srv, client, term, location, m, s). nat (m - yp_count s))"
    using yelp_step_progress by fastforce
qed

declare yelp_loop.simps [simp del]

definition yelp_search_all ::
  "server \<Rightarrow> yelp_client \<Rightarrow> request list \<Rightarrow> string \<Rightarrow> string \<Rightarrow> int \<Rightarrow> run" where
  "yelp_search_all srv client log term location max_results =
     yelp_loop srv client term location max_results
       \<lparr>yp_count = 0, yp_offset = 0, yp_yielded = [], yp_calls = log\<rparr>"

section \<open>The field absence policy of the tweet normalizer\<close>

text \<open>
  The raw tweets on which the normalizer is total are those whose present fields have the
  container type the normalizer reads them as: \<^verbatim>\<open>legacy\<close>, \<^verbatim>\<open>entities\<close>, \<^verbatim>\<open>core\<close>,
  \<^verbatim>\<open>user_results\<close>, \<^verbatim>\<open>result\<close> and the user's \<^verbatim>\<open>legacy\<close> are dictionaries, and
  \<^verbatim>\<open>hashtags\<close>, \<^verbatim>\<open>urls\<close>, \<^verbatim>\<open>user_mentions\<close> and \<^verbatim>\<open>media\<close> are lists of
  dictionaries. Any of them may be missing.
\<close>

fun is_dict :: "json \<Rightarrow> bool" where
  "is_dict (JDict kvs) = True"
| "is_dict _ = False"

fun is_dict_list :: "json \<Rightarrow> bool" where
  "is_dict_list (JList xs) = list_all is_dict xs"
| "is_dict_list _ = False"

fun field_ok :: "(json \<Rightarrow> bool) \<Rightarrow> string \<Rightarrow> json \<Rightarrow> bool" where
  "field_ok P k (JDict kvs) = (case map_of kvs k of None \<Rightarrow> True | Some v \<Rightarrow> P v)"
| "field_ok P k _ = False"

definition entities_shaped :: "json \<Rightarrow> bool" where
  "entities_shaped en \<longleftrightarrow>
     field_ok is_dict_list ''hashtags'' en \<and> field_ok is_dict_list ''urls'' en
     \<and> field_ok is_dict_list ''user_mentions'' en \<and> field_ok is_dict_list ''media'' en"

definition tweet_shaped :: "json \<Rightarrow> bool" where
  "tweet_shaped tweet \<longleftrightarrow>
     field_ok (field_ok entities_shaped ''entities'') ''legacy'' tweet
     \<and> field_ok (field_ok (field_ok (field_ok is_dict ''legacy'') ''result'') ''user_results'')
           ''core'' tweet"

text \<open>
  The record the field absence policy describes, written without exceptions:
  \<open>lookup_or d x path\<close> is the value at the path, and \<open>d\<close> where a key of the path is
  missing.
\<close>

fun lookup_or :: "json \<Rightarrow> json \<Rightarrow> string list \<Rightarrow> json" where
  "lookup_or d x [] = x"
| "lookup_or d (JDict kvs) (k # ks) =
     (case map_of kvs k of None \<Rightarrow> d | Some v \<Rightarrow> lookup_or d v ks)"
| "lookup_or d _ (k # ks) = d"

definition items_at :: "json \<Rightarrow> string list \<Rightarrow> json list" where
  "items_at x ks = (case lookup_or (JList []) x ks of JList xs \<Rightarrow> xs | _ \<Rightarrow> [])"

definition fields_at ::
  "json \<Rightarrow> string list \<Rightarrow> (string \<times> string) list \<Rightarrow> (string \<times> json) list" where
  "fields_at x path ks = map (\<lambda>(k', k). (k', lookup_or JNull x (path @ [k]))) ks"

definition normalized_tweet :: "json \<Rightarrow> json" where
  "normalized_tweet tweet =
     JDict ([(''id'', lookup_or JNull tweet [''rest_id''])] @
            fields_at tweet [''legacy'']
              [(''created_at'', ''created_at''), (''text'', ''full_text''),
               (''retweet_count'', ''retweet_count''), (''favorite_count'', ''favorite_count''),
               (''reply_count'', ''reply_count''), (''quote_count'', ''quote_count'')] @
            [(''user'', JDict (fields_at tweet [''core'', ''user_results'', ''result'', ''legacy'']
                                 [(''id'', ''id_str''), (''name'', ''name''),
                                  (''screen_name'', ''screen_name''),
                                  (''followers_count'', ''followers_count''),
                                  (''friends_count'', ''friends_count'')] @
                               [(''verified'', lookup_or (JBool False) tweet
                                   [''core'', ''user_results'', ''result'', ''legacy'',
                                    ''verified''])])),
             (''hashtags'', JList (map (\<lambda>h. lookup_or JNull h [''text''])
                                     (items_at tweet [''legacy'', ''entities'', ''hashtags'']))),
             (''urls'', JList (map (\<lambda>u. lookup_or JNull u [''expanded_url''])
                                 (items_at tweet [''legacy'', ''entities'', ''urls'']))),
             (''mentions'', JList (map (\<lambda>m. JDict (fields_at m []
                                       [(''screen_name'', ''screen_name''), (''name'', ''name''),
                                        (''id'', ''id_str'')]))
                                     (items_at tweet [''legacy'', ''entities'', ''user_mentions'']))),
             (''media'', JList (map (\<lambda>m. JDict (fields_at m []
                                       [(''type'', ''type''), (''url'', ''media_url_https''),
                                        (''alt_text'', ''ext_alt_text'')]))
                                  (items_at tweet [''legacy'', ''entities'', ''media''])))])"

section \<open>The batches of a run\<close>

text \<open>
  The state of a driver between two batches, from the first on: \<open>next s s'\<close> holds when
  the loop, in state \<open>s\<close>, asks for a batch and goes on in state \<open>s'\<close>. The states
  reachable from the start are those the run passes through, whether it returns or not.
\<close>

definition twitter_start :: "request list \<Rightarrow> twitter_state" where
  "twitter_start log = \<lparr>tw_count = 0, tw_cursor = JNull, tw_yielded = [], tw_calls = log\<rparr>"

definition twitter_next :: "server \<Rightarrow> string \<Rightarrow> int \<Rightarrow> twitter_state \<Rightarrow> twitter_state \<Rightarrow> bool" where
  "twitter_next srv query max_results s s' \<longleftrightarrow>
     tw_count s < max_results \<and> twitter_step srv query max_results s = Continue s'"

definition indeed_start :: "request list \<Rightarrow> indeed_state" where
  "indeed_start log = \<lparr>in_count = 0, in_page = 0, in_yielded = [], in_calls = log\<rparr>"

definition indeed_next ::
  "server \<Rightarrow> indeed_client \<Rightarrow> string \<Rightarrow> string \<Rightarrow> int \<Rightarrow> indeed_state \<Rightarrow> indeed_state \<Rightarrow> bool" where
  "indeed_next srv client query location max_results s s' \<longleftrightarrow>
     in_count s < max_results
     \<and> indeed_step srv client query location max_results s = Continue s'"

definition yelp_start :: "request list \<Rightarrow> yelp_state" where
  "yelp_start log = \<lparr>yp_count = 0, yp_offset = 0, yp_yielded = [], yp_calls = log\<rparr>"

definition yelp_next ::
  "server \<Rightarrow> yelp_client \<Rightarrow> string \<Rightarrow> string \<Rightarrow> int \<Rightarrow> yelp_state \<Rightarrow> yelp_state \<Rightarrow> bool" where
  "yelp_next srv client term location max_results s s' \<longleftrightarrow>
     yp_count s < max_results
     \<and> yelp_step srv client term location max_results s = Continue s'"

text \<open>
  Two conditions on the batch a Twitter run asks for in state \<open>s\<close>. Bounded: the batch,
  if the request and the reading of its entries do not fail, holds no more tweets than
  the count asked for. Delivered: the request does not fail, the batch holds at least one
  tweet and no more than asked for, every tweet normalizes, and the batch carries a
  truthy bottom cursor unless it completes the maximum.
\<close>

definition twitter_batch_bounded :: "server \<Rightarrow> string \<Rightarrow> int \<Rightarrow> twitter_state \<Rightarrow> bool" where
  "twitter_batch_bounded srv query max_results s =
     (let batch_size = min 20 (max_results - tw_count s) in
      case twitter_search srv (tw_calls s) query batch_size (tw_cursor s) of
        (Inl e, log') \<Rightarrow> True
      | (Inr response_data, log') \<Rightarrow>
          (case timeline_entries response_data of
             Inl e \<Rightarrow> True
           | Inr entries \<Rightarrow> int (length (fst (yield_tweets entries))) \<le> batch_size))"

definition twitter_batch_delivered :: "server \<Rightarrow> string \<Rightarrow> int \<Rightarrow> twitter_state \<Rightarrow> bool" where
  "twitter_batch_delivered srv query max_results s =
     (let batch_size = min 20 (max_results - tw_count s) in
      case twitter_search srv (tw_calls s) query batch_size (tw_cursor s) of
        (Inl e, log') \<Rightarrow> False
      | (Inr response_data, log') \<Rightarrow>
          (case timeline_entries response_data of
             Inl e \<Rightarrow> False
           | Inr entries \<Rightarrow>
               (case find_cursor entries of
                  Inl e \<Rightarrow> False
                | Inr next_cursor \<Rightarrow>
                    (case yield_tweets entries of
                       (ys, Some e) \<Rightarrow> False
                     | (ys, None) \<Rightarrow>
                         ys \<noteq> [] \<and> int (length ys) \<le> batch_size
                         \<and> (truthy next_cursor
                            \<or> max_results \<le> tw_count s + int (length ys))))))"

text \<open>
  Delivered, for Indeed: the request does not fail, the batch holds at least one job,
  the jobs the loop visits give their records, and a next page is expected (a next-page
  token, or a page at least as long as the batch size) unless the batch completes the
  maximum. For Yelp: the batch is obtained, it holds at least one business, and its
  total is a number above the count reached unless the batch completes the maximum.
\<close>

definition indeed_batch_delivered ::
  "server \<Rightarrow> indeed_client \<Rightarrow> string \<Rightarrow> string \<Rightarrow> int \<Rightarrow> indeed_state \<Rightarrow> bool" where
  "indeed_batch_delivered srv client query location max_results s =
     (let batch_size = min page_size (max_results - in_count s) in
      case indeed_search srv client (in_calls s) query location (in_page s) batch_size of
        (Inl e, log') \<Rightarrow> False
      | (Inr response_data, log') \<Rightarrow>
          (case indeed_batch response_data batch_size of
             Inl e \<Rightarrow> False
           | Inr (jobs, has_next_page) \<Rightarrow>
               (case py_iter jobs of
                  Inl e \<Rightarrow> False
                | Inr items \<Rightarrow>
                    items \<noteq> []
                    \<and> (case yield_jobs max_results (in_count s) items of
                         (ys, n, Some e) \<Rightarrow> False
                       | (ys, n, None) \<Rightarrow> has_next_page \<or> max_results \<le> n))))"

definition yelp_batch_delivered ::
  "server \<Rightarrow> yelp_client \<Rightarrow> string \<Rightarrow> string \<Rightarrow> int \<Rightarrow> yelp_state \<Rightarrow> bool" where
  "yelp_batch_delivered srv client term location max_results s =
     (let batch_size = min page_size (max_results - yp_count s) in
      case yelp_batch srv client (yp_calls s) term location (yp_offset s) batch_size of
        (Inl e, log') \<Rightarrow> False
      | (Inr (businesses, total_results), log') \<Rightarrow>
          (case py_iter businesses of
             Inl e \<Rightarrow> False
           | Inr items \<Rightarrow>
               items \<noteq> []
               \<and> (case yield_businesses max_results (yp_count s) items of
                    (ys, n) \<Rightarrow>
                      (case py_ge n total_results of
                         Inl e \<Rightarrow> False
                       | Inr reached \<Rightarrow> reached \<longrightarrow> max_results \<le> n))))"

section \<open>Sample sites\<close>

text \<open>Concrete servers, on which the clients are run below.\<close>

definition empty_page :: html where
  "empty_page = \<lparr>csrf_meta = None, script_strings = [], mosaic_provider = None,
     job_cards = [], initial_state = JNull, business_cards = []\<rparr>"

definition ok_page :: "html \<Rightarrow> response" where
  "ok_page page = \<lparr>status_code = 200, body_text = [], json_body = None, soup = page\<rparr>"

definition ok_json :: "json \<Rightarrow> response" where
  "ok_json j = \<lparr>status_code = 200, body_text = [], json_body = Some j, soup = empty_page\<rparr>"

definition status_only :: "int \<Rightarrow> response" where
  "status_only n = \<lparr>status_code = n, body_text = [], json_body = None, soup = empty_page\<rparr>"

text \<open>A timeline entry that holds the tweet \<open>i\<close>, one that holds the bottom cursor \<open>c\<close>,
  and the search response with the given entries.\<close>

definition tweet_entry :: "string \<Rightarrow> json" where
  "tweet_entry i =
     JDict [(''content'', JDict [(''entryType'', JStr ''TimelineTimelineItem''),
       (''itemContent'',
          JDict [(''tweet_results'', JDict [(''result'', JDict [(''rest_id'', JStr i)])])])])]"

definition cursor_entry :: "string \<Rightarrow> json" where
  "cursor_entry c =
     JDict [(''content'', JDict [(''entryType'', JStr ''TimelineTimelineCursor''),
       (''cursorType'', JStr ''Bottom''), (''value'', JStr c)])]"

definition timeline :: "json list \<Rightarrow> json" where
  "timeline entries =
     JDict [(''data'', JDict [(''search_by_raw_query'', JDict [(''search_timeline'',
       JDict [(''timeline'', JDict [(''instructions'',
         JList [JDict [(''type'', JStr ''TimelineAddEntries''),
                       (''entries'', JList entries)]])])])])])]"

text \<open>A Twitter that first answers with a bottom cursor and no tweet, and with one tweet
  and no cursor afterwards.\<close>

definition twitter_empty_first :: server where
  "twitter_empty_first log req =
     (if log = [] then Inr (ok_json (timeline [cursor_entry ''c1'']))
      else Inr (ok_json (timeline [tweet_entry ''1''])))"

text \<open>A Twitter that answers every search with two tweets, whatever count is asked.\<close>

definition twitter_two :: server where
  "twitter_two log req = Inr (ok_json (timeline [tweet_entry ''1'', tweet_entry ''2'']))"

text \<open>An Indeed whose results page for \<^verbatim>\<open>start\<close> and \<^verbatim>\<open>limit\<close> lists the jobs numbered
  \<^verbatim>\<open>start\<close>, ..., \<^verbatim>\<open>start + limit - 1\<close>, with no mosaic id: the listing never runs out.\<close>

definition listed_job :: "int \<Rightarrow> job_card" where
  "listed_job i =
     \<lparr>jc_title = Some \<lparr>el_text = ''Engineer'', el_attrs = []\<rparr>,
      jc_link = Some \<lparr>el_text = ''Engineer'',
                       el_attrs = [(''href'', ''/viewjob?jk='' @ str_of_int i),
                                   (''data-jk'', str_of_int i)]\<rparr>,
      jc_company = None, jc_location = None, jc_salary = None, jc_snippet = None,
      jc_date = None\<rparr>"

definition indeed_listing :: server where
  "indeed_listing log req =
     (case req of
        IndeedJobs q l start limit \<Rightarrow>
          Inr (ok_page (empty_page\<lparr>job_cards :=
                 map (\<lambda>i. listed_job (start + int i)) [0..<nat limit]\<rparr>))
      | _ \<Rightarrow> Inl (TransportError ''unexpected request''))"

text \<open>The same listing behind the GraphQL endpoint: the results page carries a mosaic id,
  and the query for \<^verbatim>\<open>page\<close> and \<^verbatim>\<open>pageSize\<close> returns the jobs numbered from
  \<^verbatim>\<open>page * pageSize\<close> on, with a next-page token.\<close>

definition graphql_job :: "int \<Rightarrow> json" where
  "graphql_job i = JDict [(''job'', JDict [(''key'', JStr (str_of_int i))])]"

definition indeed_graphql_listing :: server where
  "indeed_graphql_listing log req =
     (case req of
        IndeedJobs q l start limit \<Rightarrow>
          Inr (ok_page (empty_page\<lparr>mosaic_provider :=
                 Some \<lparr>el_text = [], el_attrs = [(''data-mosaic-id'', ''m1'')]\<rparr>\<rparr>))
      | IndeedGraphQL q l page limit mosaic_id token \<Rightarrow>
          Inr (ok_json (JDict [(''data'', JDict [(''jobSearch'',
                 JDict [(''results'',
                           JList (map (\<lambda>i. graphql_job (page * limit + int i)) [0..<nat limit])),
                        (''pageInfo'', JDict [(''nextPageToken'', JStr ''next'')])])])]))
      | _ \<Rightarrow> Inl (TransportError ''unexpected request''))"

text \<open>A Yelp whose results page for \<^verbatim>\<open>start\<close> lists, in its markup, the \<open>n\<close> businesses
  numbered from \<^verbatim>\<open>start\<close> on, and whose GraphQL endpoint answers with status 500.\<close>

definition listed_business :: "int \<Rightarrow> business_card" where
  "listed_business i =
     \<lparr>bc_container = True,
      bc_name = Some \<lparr>el_text = ''Pizzeria'',
                       el_attrs = [(''href'', ''/biz/'' @ str_of_int i)]\<rparr>,
      bc_rating = Inr JNull, bc_review_count = JNull, bc_price = None,
      bc_categories = [], bc_address = None\<rparr>"

definition yelp_listing :: "nat \<Rightarrow> server" where
  "yelp_listing n log req =
     (case req of
        YelpSearch t l start \<Rightarrow>
          Inr (ok_page (empty_page\<lparr>business_cards :=
                 map (\<lambda>i. listed_business (start + int i)) [0..<n]\<rparr>))
      | YelpGraphQL t l offset limit token \<Rightarrow> Inr (status_only 500)
      | _ \<Rightarrow> Inl (TransportError ''unexpected request''))"

text \<open>A site that answers every request with status 503.\<close>

definition site_down :: server where
  "site_down log req = Inr (status_only 503)"

text \<open>A Yelp whose results page for \<^verbatim>\<open>start\<close> embeds an initial state with the \<open>n\<close>
  businesses numbered from \<^verbatim>\<open>start\<close> on and a total of 1000 results: the page size is
  the site's, whatever limit the client has in mind.\<close>

definition state_business :: "int \<Rightarrow> json" where
  "state_business i =
     JDict [(''type'', JStr ''business''),
            (''business'', JDict [(''id'', JStr (str_of_int i)),
                                  (''businessUrl'', JStr (''/biz/'' @ str_of_int i))])]"

definition yelp_state_listing :: "nat \<Rightarrow> server" where
  "yelp_state_listing n log req =
     (case req of
        YelpSearch t l start \<Rightarrow>
          Inr (ok_page (empty_page\<lparr>initial_state :=
            JDict [(''searchPageProps'', JDict [(''searchResultsProps'',
              JDict [(''searchResponse'',
                JDict [(''searchResults'',
                          JList (map (\<lambda>i. state_business (start + int i)) [0..<n])),
                       (''totalResults'', JInt 1000)])])])]\<rparr>))
      | _ \<Rightarrow> Inl (TransportError ''unexpected request''))"

definition bare_card :: job_card where
  "bare_card = \<lparr>jc_title = None, jc_link = None, jc_company = None, jc_location = None,
                 jc_salary = None, jc_snippet = None, jc_date = None\<rparr>"

text \<open>
  Three sites that run out. A Twitter with \<open>n\<close> tweets answers a search for
  \<^verbatim>\<open>count\<close> tweets with the next \<^verbatim>\<open>count\<close> of them, or with those that are left, and
  with a bottom cursor while more are left; what it has served is read off the searches
  made before. An Indeed with \<open>n\<close> jobs lists, for \<^verbatim>\<open>start\<close> and \<^verbatim>\<open>limit\<close>, the jobs
  numbered from \<^verbatim>\<open>start\<close> on, at most \<^verbatim>\<open>limit\<close> of them and none beyond the last. A Yelp
  with \<open>n\<close> businesses embeds, for \<^verbatim>\<open>start\<close>, an initial state with the businesses
  numbered from \<^verbatim>\<open>start\<close> on, at most ten of them and none beyond the last, and the
  total \<open>n\<close>.
\<close>

definition tweets_served :: "request list \<Rightarrow> int" where
  "tweets_served log =
     sum_list (map (\<lambda>req. case req of TwitterSearch q count cursor \<Rightarrow> count | _ \<Rightarrow> 0) log)"

definition twitter_archive :: "nat \<Rightarrow> server" where
  "twitter_archive n log req =
     (case req of
        TwitterSearch q count cursor \<Rightarrow>
          (let served = tweets_served log;
               k = min count (int n - served)
           in Inr (ok_json (timeline
                (map (\<lambda>i. tweet_entry (str_of_int (served + int i))) [0..<nat k]
                 @ (if served + k < int n then [cursor_entry ''more''] else [])))))
      | _ \<Rightarrow> Inl (TransportError ''unexpected request''))"

definition indeed_board :: "nat \<Rightarrow> server" where
  "indeed_board n log req =
     (case req of
        IndeedJobs q l start limit \<Rightarrow>
          Inr (ok_page (empty_page\<lparr>job_cards :=
                 map (\<lambda>i. listed_job (start + int i))
                   [0..<nat (min limit (int n - start))]\<rparr>))
      | _ \<Rightarrow> Inl (TransportError ''unexpected request''))"

definition yelp_directory :: "nat \<Rightarrow> server" where
  "yelp_directory n log req =
     (case req of
        YelpSearch t l start \<Rightarrow>
          Inr (ok_page (empty_page\<lparr>initial_state :=
            JDict [(''searchPageProps'', JDict [(''searchResultsProps'',
              JDict [(''searchResponse'',
                JDict [(''searchResults'',
                          JList (map (\<lambda>i. state_business (start + int i))
                                   [0..<nat (min 10 (int n - start))])),
                       (''totalResults'', JInt (int n))])])])]\<rparr>))
      | _ \<Rightarrow> Inl (TransportError ''unexpected request''))"

text \<open>A Twitter whose every answer is a bottom cursor and no tweet.\<close>

definition twitter_cursor_only :: server where
  "twitter_cursor_only log req = Inr (ok_json (timeline [cursor_entry ''c'']))"

section \<open>Properties\<close>

text \<open>
  C4. An Indeed job search for \<^verbatim>\<open>engineer\<close> in \<^verbatim>\<open>Austin, TX\<close> with a maximum of 15, on a
  listing that never runs out, requests two batches of sizes 10 and 5. The first page
  request has \<^verbatim>\<open>start = 0\<close>; the second has \<^verbatim>\<open>start = page * limit = 1 * 5 = 5\<close>, not 10,
  on the markup path and on the GraphQL path alike, and on the markup path the jobs 5 to
  9 are yielded twice.
\<close>

theorem C4_second_batch_starts_at_5:
  "calls (indeed_search_all indeed_listing
            \<lparr>in_csrf_token = None, in_indeed_csrf_token = None\<rparr> []
            ''engineer'' ''Austin, TX'' 15)
     = [IndeedJobs ''engineer'' ''Austin, TX'' 0 10, IndeedJobs ''engineer'' ''Austin, TX'' 5 5]
   \<and> map (\<lambda>j. py_get j ''id'' JNull)
        (yielded (indeed_search_all indeed_listing
                    \<lparr>in_csrf_token = None, in_indeed_csrf_token = None\<rparr> []
                    ''engineer'' ''Austin, TX'' 15))
     = map (\<lambda>i. Inr (JStr (str_of_int (int i)))) ([0..<10] @ [5..<10])
   \<and> calls (indeed_search_all indeed_graphql_listing
              \<lparr>in_csrf_token = None, in_indeed_csrf_token = Some ''tok''\<rparr> []
              ''engineer'' ''Austin, TX'' 15)
     = [IndeedJobs ''engineer'' ''Austin, TX'' 0 10,
        IndeedGraphQL ''engineer'' ''Austin, TX'' 0 10 ''m1'' ''tok'',
        IndeedJobs ''engineer'' ''Austin, TX'' 5 5,
        IndeedGraphQL ''engineer'' ''Austin, TX'' 1 5 ''m1'' ''tok'']"
  by code_simp

text \<open>An empty batch ends the Indeed and the Yelp run; on Twitter a batch that is only a
  cursor leaves the count as it was, and the loop goes on.\<close>

lemma twitter_cursor_only_step:
  assumes "tw_count s < m"
  shows "\<exists>s'. twitter_step twitter_cursor_only q m s = Continue s' \<and> tw_count s' = tw_count s"
  using assms
  by (simp add: twitter_step_def Let_def twitter_search_def send_def twitter_cursor_only_def
        ok_json_def json_of_def timeline_entries_def timeline_def bindE_def cursor_entry_def
        tweet_of_entry_def)

lemma twitter_cursor_only_never_returns:
  assumes "tw_count s < m"
  shows "twitter_loop twitter_cursor_only q m s = None"
proof (rule ccontr)
  assume "twitter_loop twitter_cursor_only q m s \<noteq> None"
  then obtain r where run: "twitter_loop twitter_cursor_only q m s = Some r" by auto
  have "twitter_cursor_only = twitter_cursor_only \<longrightarrow> tw_count s < m \<longrightarrow> False"
  proof (rule twitter_loop.raw_induct
      [where P = "\<lambda>srv q m s r. srv = twitter_cursor_only \<longrightarrow> tw_count s < m \<longrightarrow> False",
       OF _ run])
    fix loop :: "server \<Rightarrow> string \<Rightarrow> int \<Rightarrow> twitter_state \<Rightarrow> run option"
    fix srv q m s r
    assume IH: "\<And>srv q m s r. loop srv q m s = Some r \<Longrightarrow>
                  srv = twitter_cursor_only \<longrightarrow> tw_count s < m \<longrightarrow> False"
      and eq: "(if tw_count s < m then
                  (case twitter_step srv q m s of
                     Continue s' \<Rightarrow> loop srv q m s'
                   | Stop r \<Rightarrow> Some r)
                else Some \<lparr>yielded = tw_yielded s, calls = tw_calls s, outcome = Finished\<rparr>)
               = Some r"
    show "srv = twitter_cursor_only \<longrightarrow> tw_count s < m \<longrightarrow> False"
    proof (intro impI)
      assume srv: "srv = twitter_cursor_only" and lt: "tw_count s < m"
      from twitter_cursor_only_step [OF lt, of q] obtain s' where
        s': "twitter_step twitter_cursor_only q m s = Continue s'" "tw_count s' = tw_count s"
        by blast
      with eq srv lt have "loop twitter_cursor_only q m s' = Some r" by simp
      from IH [OF this] s' lt show False by simp
    qed
  qed
  with assms show False by simp
qed

lemma indeed_empty_batch_stops:
  assumes "in_count s < m"
    and "indeed_search srv client (in_calls s) q l (in_page s) (min page_size (m - in_count s))
           = (Inr response_data, log')"
    and "indeed_batch response_data (min page_size (m - in_count s)) = Inr (jobs, has_next_page)"
    and "\<not> truthy jobs"
  shows "indeed_loop srv client q l m s
           = \<lparr>yielded = in_yielded s, calls = log', outcome = Finished\<rparr>"
  using assms
  by (subst indeed_loop.simps) (auto simp: indeed_step_def Let_def page_size_def)

lemma yelp_empty_batch_stops:
  assumes "yp_count s < m"
    and "yelp_batch srv client (yp_calls s) q l (yp_offset s) (min page_size (m - yp_count s))
           = (Inr (businesses, total_results), log')"
    and "\<not> truthy businesses"
  shows "yelp_loop srv client q l m s
           = \<lparr>yielded = yp_yielded s, calls = log', outcome = Finished\<rparr>"
  using assms
  by (subst yelp_loop.simps) (auto simp: yelp_step_def Let_def page_size_def)

text \<open>
  C2. On Twitter a batch without a tweet does not end the pagination when it carries a
  bottom cursor: the driver sends a second request, with that cursor, and against a site
  whose every batch is a cursor without a tweet the run never returns. (The Indeed and
  the Yelp driver do end on an empty batch, with no further request.)
\<close>

theorem C2_twitter_empty_batch_goes_on:
  "map_option calls (twitter_search_all twitter_empty_first [] ''q'' 5)
     = Some [TwitterSearch ''q'' 5 None, TwitterSearch ''q'' 5 (Some (JStr ''c1''))]
   \<and> (case twitter_search twitter_empty_first [] ''q'' 5 JNull of
        (Inr response_data, log') \<Rightarrow>
          bindE (timeline_entries response_data) (\<lambda>es. Inr (fst (yield_tweets es)))
      | (Inl e, log') \<Rightarrow> Inl e) = Inr []
   \<and> twitter_search_all twitter_cursor_only [] ''q'' 5 = None"
proof -
  have "twitter_search_all twitter_cursor_only [] ''q'' 5 = None"
    unfolding twitter_search_all_def by (rule twitter_cursor_only_never_returns) simp
  moreover have "map_option calls (twitter_search_all twitter_empty_first [] ''q'' 5)
     = Some [TwitterSearch ''q'' 5 None, TwitterSearch ''q'' 5 (Some (JStr ''c1''))]"
    by code_simp
  moreover have "(case twitter_search twitter_empty_first [] ''q'' 5 JNull of
        (Inr response_data, log') \<Rightarrow>
          bindE (timeline_entries response_data) (\<lambda>es. Inr (fst (yield_tweets es)))
      | (Inl e, log') \<Rightarrow> Inl e) = Inr []"
    by code_simp
  ultimately show ?thesis by blast
qed


text \<open>
  C7. With a CSRF token, a GraphQL request that fails with status 500 is caught inside
  \<^verbatim>\<open>search_graphql\<close>, which returns the response of \<^verbatim>\<open>search\<close>; \<^verbatim>\<open>search_all\<close> reads
  that response under \<^verbatim>\<open>data.search.business\<close>, finds nothing and ends without a
  record, although the page lists two businesses. Without a token the same page is read
  under \<^verbatim>\<open>businesses\<close> and both are yielded.
\<close>

theorem C7_fallback_batch_is_lost:
  "yelp_search_all (yelp_listing 2) \<lparr>yp_csrf_token = Some ''tok''\<rparr> [] ''pizza'' ''NYC'' 5
     = \<lparr>yielded = [],
        calls = [YelpGraphQL ''pizza'' ''NYC'' 0 5 ''tok'', YelpSearch ''pizza'' ''NYC'' 0],
        outcome = Finished\<rparr>
   \<and> bindE (fst (yelp_search (yelp_listing 2) [YelpGraphQL ''pizza'' ''NYC'' 0 5 ''tok'']
                 ''pizza'' ''NYC'' 0 5))
        (\<lambda>response_data. bindE (py_get response_data ''businesses'' JNull) py_len) = Inr 2
   \<and> length (yielded (yelp_search_all (yelp_listing 2) \<lparr>yp_csrf_token = None\<rparr> []
                        ''pizza'' ''NYC'' 5)) = 2"
  by code_simp

text \<open>
  C6. When \<^verbatim>\<open>search\<close> raises on the first page, the Twitter and the Indeed
  \<^verbatim>\<open>search_all\<close> raise the same exception without having yielded a record, and the
  requests of that query are the only ones made. The Yelp driver catches what
  \<^verbatim>\<open>search_graphql\<close> raises and asks \<^verbatim>\<open>search\<close> for the batch instead; its
  \<^verbatim>\<open>search_all\<close> raises, without a record, when that call of \<^verbatim>\<open>search\<close> raises too:
  without a CSRF token when the one call of \<^verbatim>\<open>search\<close> raises, and with a token and a
  POST answered by another status than 200 when \<^verbatim>\<open>search\<close> raises twice, first inside
  \<^verbatim>\<open>search_graphql\<close> and then in the driver. A first page is queried when the maximum is
  positive.
\<close>

theorem C6_first_page_failure:
  assumes "0 < max_results"
  shows "(twitter_search srv log query (min 20 max_results) JNull = (Inl e, log') \<longrightarrow>
            twitter_search_all srv log query max_results
              = Some \<lparr>yielded = [], calls = log', outcome = Raised e\<rparr>)
       \<and> (indeed_search srv iclient log query location 0 (min page_size max_results)
            = (Inl e, log') \<longrightarrow>
            indeed_search_all srv iclient log query location max_results
              = \<lparr>yielded = [], calls = log', outcome = Raised e\<rparr>)
       \<and> (yelp_search_graphql srv yclient log query location 0 (min page_size max_results)
            = (Inl e1, log1) \<longrightarrow>
          yelp_search srv log1 query location 0 (min page_size max_results) = (Inl e, log') \<longrightarrow>
            yelp_search_all srv yclient log query location max_results
              = \<lparr>yielded = [], calls = log', outcome = Raised e\<rparr>)
       \<and> (yelp_search_graphql srv yclient log query location offset batch_size
            = (Inl e1, log1) \<longrightarrow>
            yelp_batch srv yclient log query location offset batch_size
              = yelp_page_batch srv log1 query location offset batch_size)
       \<and> (yp_csrf_token yclient = None \<longrightarrow>
          yelp_search srv log query location 0 (min page_size max_results) = (Inl e, log') \<longrightarrow>
            yelp_search_all srv yclient log query location max_results
              = \<lparr>yielded = [], calls = log', outcome = Raised e\<rparr>)
       \<and> (yp_csrf_token yclient = Some token \<and> token \<noteq> [] \<longrightarrow>
          srv log (YelpGraphQL query location 0 (min page_size max_results) token) = Inr resp \<longrightarrow>
          status_code resp \<noteq> 200 \<longrightarrow>
          yelp_search srv (log @ [YelpGraphQL query location 0 (min page_size max_results) token])
            query location 0 (min page_size max_results) = (Inl e2, log2) \<longrightarrow>
          yelp_search srv log2 query location 0 (min page_size max_results) = (Inl e, log') \<longrightarrow>
            yelp_search_all srv yclient log query location max_results
              = \<lparr>yielded = [], calls = log', outcome = Raised e\<rparr>)"
proof -
  have raised: "yelp_search_all srv yclient log query location max_results
              = \<lparr>yielded = [], calls = log', outcome = Raised e\<rparr>"
    if "yelp_batch srv yclient log query location 0 (min page_size max_results) = (Inl e, log')"
    for e log'
    using that assms unfolding yelp_search_all_def
    by (subst yelp_loop.simps) (simp add: yelp_step_def Let_def page_size_def)
  show ?thesis
proof (intro conjI impI)
  assume "twitter_search srv log query (min 20 max_results) JNull = (Inl e, log')"
  with assms show "twitter_search_all srv log query max_results
              = Some \<lparr>yielded = [], calls = log', outcome = Raised e\<rparr>"
    unfolding twitter_search_all_def
    by (subst twitter_loop.simps) (simp add: twitter_step_def Let_def)
next
  assume "indeed_search srv iclient log query location 0 (min page_size max_results)
            = (Inl e, log')"
  with assms show "indeed_search_all srv iclient log query location max_results
              = \<lparr>yielded = [], calls = log', outcome = Raised e\<rparr>"
    unfolding indeed_search_all_def
    by (subst indeed_loop.simps) (simp add: indeed_step_def Let_def page_size_def)
next
  assume g: "yelp_search_graphql srv yclient log query location 0 (min page_size max_results)
            = (Inl e1, log1)"
    and p: "yelp_search srv log1 query location 0 (min page_size max_results) = (Inl e, log')"
  from g p have "yelp_batch srv yclient log query location 0 (min page_size max_results)
                   = (Inl e, log')"
    by (simp add: yelp_batch_def yelp_page_batch_def)
  then show "yelp_search_all srv yclient log query location max_results
              = \<lparr>yielded = [], calls = log', outcome = Raised e\<rparr>"
    by (rule raised)
next
  assume "yelp_search_graphql srv yclient log query location offset batch_size
            = (Inl e1, log1)"
  then show "yelp_batch srv yclient log query location offset batch_size
              = yelp_page_batch srv log1 query location offset batch_size"
    by (simp add: yelp_batch_def)
next
  assume "yp_csrf_token yclient = None"
    and "yelp_search srv log query location 0 (min page_size max_results) = (Inl e, log')"
  then have "yelp_batch srv yclient log query location 0 (min page_size max_results)
               = (Inl e, log')"
    by (simp add: yelp_batch_def yelp_search_graphql_def yelp_page_batch_def)
  then show "yelp_search_all srv yclient log query location max_results
              = \<lparr>yielded = [], calls = log', outcome = Raised e\<rparr>"
    by (rule raised)
next
  assume "yp_csrf_token yclient = Some token \<and> token \<noteq> []"
    and "srv log (YelpGraphQL query location 0 (min page_size max_results) token) = Inr resp"
    and "status_code resp \<noteq> 200"
    and "yelp_search srv (log @ [YelpGraphQL query location 0 (min page_size max_results) token])
            query location 0 (min page_size max_results) = (Inl e2, log2)"
    and "yelp_search srv log2 query location 0 (min page_size max_results) = (Inl e, log')"
  then have "yelp_batch srv yclient log query location 0 (min page_size max_results)
               = (Inl e, log')"
    by (simp add: yelp_batch_def yelp_search_graphql_def yelp_page_batch_def send_def)
  then show "yelp_search_all srv yclient log query location max_results
              = \<lparr>yielded = [], calls = log', outcome = Raised e\<rparr>"
    by (rule raised)
qed
qed

theorem C6_first_page_failure_witness:
  "twitter_search_all site_down [] ''q'' 5
     = Some \<lparr>yielded = [], calls = [TwitterSearch ''q'' 5 None],
              outcome = Raised (Exception ''Search failed: 503 '')\<rparr>
   \<and> indeed_search_all site_down \<lparr>in_csrf_token = None, in_indeed_csrf_token = None\<rparr> []
        ''q'' ''NYC'' 5
     = \<lparr>yielded = [], calls = [IndeedJobs ''q'' ''NYC'' 0 5],
        outcome = Raised (Exception ''Search failed: 503'')\<rparr>
   \<and> yelp_search_all site_down \<lparr>yp_csrf_token = None\<rparr> [] ''q'' ''NYC'' 5
     = \<lparr>yielded = [], calls = [YelpSearch ''q'' ''NYC'' 0],
        outcome = Raised (Exception ''Search failed: 503'')\<rparr>
   \<and> yelp_batch (yelp_listing 2) \<lparr>yp_csrf_token = None\<rparr> [] ''pizza'' ''NYC'' 0 5
     = yelp_page_batch (yelp_listing 2) [] ''pizza'' ''NYC'' 0 5
   \<and> yelp_search_all site_down \<lparr>yp_csrf_token = Some ''tok''\<rparr> [] ''q'' ''NYC'' 5
     = \<lparr>yielded = [],
        calls = [YelpGraphQL ''q'' ''NYC'' 0 5 ''tok'', YelpSearch ''q'' ''NYC'' 0,
                 YelpSearch ''q'' ''NYC'' 0],
        outcome = Raised (Exception ''Search failed: 503'')\<rparr>"
proof -
  have pos: "(0::int) < 5" by simp
  have t: "twitter_search site_down [] ''q'' (min 20 5) JNull
             = (Inl (Exception ''Search failed: 503 ''), [TwitterSearch ''q'' 5 None])"
    by code_simp
  have i: "indeed_search site_down \<lparr>in_csrf_token = None, in_indeed_csrf_token = None\<rparr> []
             ''q'' ''NYC'' 0 (min page_size 5)
             = (Inl (Exception ''Search failed: 503''), [IndeedJobs ''q'' ''NYC'' 0 5])"
    by code_simp
  have g: "yelp_search_graphql site_down \<lparr>yp_csrf_token = None\<rparr> [] ''q'' ''NYC'' 0
             (min page_size 5)
             = (Inl (Exception ''CSRF token not available''), [])"
    by code_simp
  have y: "yelp_search site_down [] ''q'' ''NYC'' 0 (min page_size 5)
             = (Inl (Exception ''Search failed: 503''), [YelpSearch ''q'' ''NYC'' 0])"
    by code_simp
  have g2: "yelp_search_graphql (yelp_listing 2) \<lparr>yp_csrf_token = None\<rparr> [] ''pizza'' ''NYC'' 0 5
             = (Inl (Exception ''CSRF token not available''), [])"
    by code_simp
  have tok: "yp_csrf_token \<lparr>yp_csrf_token = Some ''tok''\<rparr> = Some ''tok'' \<and> ''tok'' \<noteq> []"
    by simp
  have post: "site_down [] (YelpGraphQL ''q'' ''NYC'' 0 (min page_size 5) ''tok'')
                = Inr (status_only 503)"
    by (simp add: site_down_def)
  have st: "status_code (status_only 503) \<noteq> 200"
    by (simp add: status_only_def)
  have y1: "yelp_search site_down ([] @ [YelpGraphQL ''q'' ''NYC'' 0 (min page_size 5) ''tok''])
              ''q'' ''NYC'' 0 (min page_size 5)
             = (Inl (Exception ''Search failed: 503''),
                [YelpGraphQL ''q'' ''NYC'' 0 5 ''tok'', YelpSearch ''q'' ''NYC'' 0])"
    by code_simp
  have y2: "yelp_search site_down
              [YelpGraphQL ''q'' ''NYC'' 0 5 ''tok'', YelpSearch ''q'' ''NYC'' 0]
              ''q'' ''NYC'' 0 (min page_size 5)
             = (Inl (Exception ''Search failed: 503''),
                [YelpGraphQL ''q'' ''NYC'' 0 5 ''tok'', YelpSearch ''q'' ''NYC'' 0,
                 YelpSearch ''q'' ''NYC'' 0])"
    by code_simp
  have none: "yp_csrf_token \<lparr>yp_csrf_token = None\<rparr> = None"
    by simp
  note flaky = C6_first_page_failure [OF pos, THEN conjunct2, THEN conjunct2, THEN conjunct2,
      THEN conjunct2, THEN conjunct2, THEN mp, THEN mp, THEN mp, THEN mp, THEN mp,
      OF tok post st y1 y2]
  note tokenless = C6_first_page_failure [OF pos, THEN conjunct2, THEN conjunct2,
      THEN conjunct2, THEN conjunct2, THEN conjunct1, THEN mp, THEN mp, OF none y]
  from flaky tokenless
       C6_first_page_failure [OF pos, THEN conjunct1, THEN mp, OF t]
       C6_first_page_failure [OF pos, THEN conjunct2, THEN conjunct1, THEN mp, OF i]
       C6_first_page_failure [OF pos, THEN conjunct2, THEN conjunct2, THEN conjunct1,
                              THEN mp, THEN mp, OF g y]
       C6_first_page_failure [OF pos, THEN conjunct2, THEN conjunct2, THEN conjunct2,
                              THEN conjunct1, THEN mp, OF g2]
  show ?thesis by blast
qed

theorem C6_yelp_executor_counterexample:
  "fst (yelp_search_graphql (yelp_listing 2) \<lparr>yp_csrf_token = None\<rparr> [] ''pizza'' ''NYC'' 0 5)
     = Inl (Exception ''CSRF token not available'')
   \<and> outcome (yelp_search_all (yelp_listing 2) \<lparr>yp_csrf_token = None\<rparr> [] ''pizza'' ''NYC'' 5)
     = Finished
   \<and> length (yielded (yelp_search_all (yelp_listing 2) \<lparr>yp_csrf_token = None\<rparr> []
                        ''pizza'' ''NYC'' 5)) = 2"
  by code_simp

text \<open>The \<^verbatim>\<open>try\<close> statement of the Yelp driver raises only what \<^verbatim>\<open>search\<close> raised in
  its \<^verbatim>\<open>except\<close> clause.\<close>

lemma yelp_search_dict:
  "yelp_search srv log t l off lim = (Inr d, log') \<Longrightarrow> \<exists>kvs. d = JDict kvs"
  by (auto simp: yelp_search_def send_def bindE_def extract_from_initial_state_def
        yelp_parse_html_results_def Let_def
      split: sum.splits if_splits)

lemma yelp_page_batch_raises:
  "yelp_page_batch srv log t l off b = (Inl e, log') \<Longrightarrow>
     yelp_search srv log t l off b = (Inl e, log')"
  by (auto simp: yelp_page_batch_def bindE_def split: prod.splits sum.splits
      dest!: yelp_search_dict)

lemma yelp_batch_raises:
  "yelp_batch srv client log t l off b = (Inl e, log') \<Longrightarrow>
     \<exists>log1. yelp_search srv log1 t l off b = (Inl e, log')"
  by (auto simp: yelp_batch_def split: prod.splits sum.splits dest!: yelp_page_batch_raises)

text \<open>The keys of the records of the two Indeed paths and of the two Yelp page paths.\<close>

lemma bindE_Inr_iff: "bindE m f = Inr y \<longleftrightarrow> (\<exists>x. m = Inr x \<and> f x = Inr y)"
  by (cases m) (auto simp: bindE_def)

lemma get_fields_keys: "get_fields ks x = Inr kvs \<Longrightarrow> map fst kvs = map fst ks"
  by (induction ks arbitrary: kvs) (auto simp: bindE_Inr_iff)

lemma graphql_job_record_keys:
  "graphql_job_record job_data = Inr r \<Longrightarrow>
     keys_of r = {''id'', ''title'', ''company'', ''location'', ''salary'', ''job_types'',
                  ''description'', ''url'', ''date_posted''}"
  by (auto simp: graphql_job_record_def bindE_Inr_iff keys_of_def)

lemma parse_job_card_keys:
  "keys_of (parse_job_card jcard) = {''id'', ''title'', ''company'', ''location'', ''salary'',
                  ''description'', ''url'', ''date_posted''}"
  by (auto simp: parse_job_card_def keys_of_def Let_def)

lemma initial_state_business_keys:
  "initial_state_business business_data = Inr b \<Longrightarrow>
     keys_of b = {''id'', ''name'', ''url'', ''image_url'', ''review_count'', ''rating'', ''price'',
                  ''categories'', ''location'', ''phone'', ''distance''}"
  by (auto simp: initial_state_business_def bindE_Inr_iff keys_of_def dest!: get_fields_keys)

lemma parse_business_card_keys:
  "parse_business_card bcard = Some h \<Longrightarrow>
     keys_of h = {''id'', ''name'', ''url'', ''image_url'', ''review_count'', ''rating'', ''price'',
                  ''categories'', ''location'', ''phone''}"
  by (auto simp: parse_business_card_def keys_of_def Let_def split: if_splits sum.splits)

text \<open>
  C3. The two paths of a domain do not produce the same keys. A job record built from
  the GraphQL response has the eight keys of a job record parsed from the page and
  \<^verbatim>\<open>job_types\<close> besides; a Yelp business taken from the initial state has the ten keys
  of a business parsed from the markup and \<^verbatim>\<open>distance\<close> besides.
\<close>

theorem C3_key_sets_differ:
  "(graphql_job_record job_data = Inr r \<longrightarrow>
      keys_of r = insert ''job_types'' (keys_of (parse_job_card jcard))
      \<and> ''job_types'' \<notin> keys_of (parse_job_card jcard))
   \<and> (initial_state_business business_data = Inr b \<longrightarrow> parse_business_card bcard = Some h \<longrightarrow>
      keys_of b = insert ''distance'' (keys_of h) \<and> ''distance'' \<notin> keys_of h)"
proof (intro conjI impI)
  assume g: "graphql_job_record job_data = Inr r"
  show "keys_of r = insert ''job_types'' (keys_of (parse_job_card jcard))"
    unfolding graphql_job_record_keys [OF g] parse_job_card_keys by auto
  show "''job_types'' \<notin> keys_of (parse_job_card jcard)"
    unfolding parse_job_card_keys by simp
next
  assume i: "initial_state_business business_data = Inr b"
    and p: "parse_business_card bcard = Some h"
  show "keys_of b = insert ''distance'' (keys_of h)"
    unfolding initial_state_business_keys [OF i] parse_business_card_keys [OF p] by auto
  show "''distance'' \<notin> keys_of h"
    unfolding parse_business_card_keys [OF p] by simp
qed

theorem C3_key_sets_differ_witness:
  "keys_of (JDict [(''id'', JNull), (''title'', JNull), (''company'', JNull),
                   (''location'', JStr ''Remote''), (''salary'', JNull),
                   (''job_types'', JList []), (''description'', JNull),
                   (''url'', JStr ''https://www.indeed.com/viewjob?jk=None''),
                   (''date_posted'', JNull)])
     = insert ''job_types'' (keys_of (parse_job_card (listed_job 0)))
   \<and> ''job_types'' \<notin> keys_of (parse_job_card (listed_job 0))
   \<and> keys_of (the (parse_business_card (listed_business 0)))
     \<union> {''distance''}
     = {''id'', ''name'', ''url'', ''image_url'', ''review_count'', ''rating'', ''price'',
        ''categories'', ''location'', ''phone'', ''distance''}
   \<and> ''distance'' \<notin> keys_of (the (parse_business_card (listed_business 0)))"
proof -
  have g: "graphql_job_record (JDict [])
             = Inr (JDict [(''id'', JNull), (''title'', JNull), (''company'', JNull),
                   (''location'', JStr ''Remote''), (''salary'', JNull),
                   (''job_types'', JList []), (''description'', JNull),
                   (''url'', JStr ''https://www.indeed.com/viewjob?jk=None''),
                   (''date_posted'', JNull)])"
    by code_simp
  obtain b where i: "initial_state_business (JDict []) = Inr b"
    by (cases "initial_state_business (JDict [])")
       (simp_all add: initial_state_business_def bindE_def indeed_base_url_def)
  have "parse_business_card (listed_business 0) \<noteq> None"
    by code_simp
  then obtain h where p: "parse_business_card (listed_business 0) = Some h"
    by auto
  have kb: "keys_of b = {''id'', ''name'', ''url'', ''image_url'', ''review_count'', ''rating'',
        ''price'', ''categories'', ''location'', ''phone'', ''distance''}"
    using i by (rule initial_state_business_keys)
  from C3_key_sets_differ [of "JDict []" _ "listed_job 0", THEN conjunct1, THEN mp, OF g]
       C3_key_sets_differ [of _ _ _ "JDict []" b "listed_business 0" h,
                           THEN conjunct2, THEN mp, THEN mp, OF i p]
  show ?thesis using p kb by auto
qed


text \<open>
  C8. The job-location formatter maps \<^verbatim>\<open>{city: "Austin", state: "TX"}\<close> to
  \<^verbatim>\<open>"Austin, TX"\<close>, the empty mapping to \<^verbatim>\<open>"Remote"\<close>, and a mapping with the
  country \<^verbatim>\<open>"UK"\<close> alone to \<^verbatim>\<open>"UK"\<close>.
\<close>

theorem C8_format_location_examples:
  "format_location (JDict [(''city'', JStr ''Austin''), (''state'', JStr ''TX'')]) = Inr ''Austin, TX''
   \<and> format_location (JDict []) = Inr ''Remote''
   \<and> format_location (JDict [(''country'', JStr ''UK'')]) = Inr ''UK''"
  by (simp add: format_location_def bindE_def)

text \<open>
  C10. In the Yelp driver a batch that lets the loop go on moves the offset by the batch
  size asked for, \<^verbatim>\<open>min(10, max_results - results_count)\<close>, whatever the batch held.
  The page request of \<^verbatim>\<open>search\<close> is the same for every limit. So a page that lists
  more businesses than were asked for is yielded whole, and the next offset falls inside
  it: with a maximum of 12 on a site that lists 11 businesses a page, the requests start
  at 0 and at 10 and business 10 is yielded twice.
\<close>

theorem C10_yelp_offset_step:
  "(yelp_step srv client term location max_results s = Continue s' \<longrightarrow>
      yp_offset s' = yp_offset s + min 10 (max_results - yp_count s))
   \<and> yelp_search srv log term location offset limit = yelp_search srv log term location offset limit'
   \<and> calls (yelp_search_all (yelp_state_listing 11) \<lparr>yp_csrf_token = None\<rparr> [] ''pizza'' ''NYC'' 12)
        = [YelpSearch ''pizza'' ''NYC'' 0, YelpSearch ''pizza'' ''NYC'' 10]
   \<and> map (\<lambda>b. py_get b ''id'' JNull)
        (yielded (yelp_search_all (yelp_state_listing 11) \<lparr>yp_csrf_token = None\<rparr> []
                    ''pizza'' ''NYC'' 12))
        = map (\<lambda>i. Inr (JStr (str_of_int (int i)))) ([0..<11] @ [10..<11])"
proof (intro conjI impI)
  assume "yelp_step srv client term location max_results s = Continue s'"
  then show "yp_offset s' = yp_offset s + min 10 (max_results - yp_count s)"
    by (auto simp: yelp_step_def Let_def page_size_def split: if_splits prod.splits sum.splits)
next
  show "yelp_search srv log term location offset limit
          = yelp_search srv log term location offset limit'"
    by (simp add: yelp_search_def)
next
  show "calls (yelp_search_all (yelp_state_listing 11) \<lparr>yp_csrf_token = None\<rparr> [] ''pizza'' ''NYC'' 12)
        = [YelpSearch ''pizza'' ''NYC'' 0, YelpSearch ''pizza'' ''NYC'' 10]"
    by code_simp
next
  show "map (\<lambda>b. py_get b ''id'' JNull)
        (yielded (yelp_search_all (yelp_state_listing 11) \<lparr>yp_csrf_token = None\<rparr> []
                    ''pizza'' ''NYC'' 12))
        = map (\<lambda>i. Inr (JStr (str_of_int (int i)))) ([0..<11] @ [10..<11])"
    by code_simp
qed


theorem C10_yelp_offset_step_witness:
  "\<exists>s'. yelp_step (yelp_state_listing 11) \<lparr>yp_csrf_token = None\<rparr> ''pizza'' ''NYC'' 12
           \<lparr>yp_count = 0, yp_offset = 0, yp_yielded = [], yp_calls = []\<rparr> = Continue s'
         \<and> yp_count s' = 11 \<and> yp_offset s' = 10"
proof -
  let ?step = "yelp_step (yelp_state_listing 11) \<lparr>yp_csrf_token = None\<rparr> ''pizza'' ''NYC'' 12
                 \<lparr>yp_count = 0, yp_offset = 0, yp_yielded = [], yp_calls = []\<rparr>"
  have c: "(case ?step of Continue s' \<Rightarrow> yp_count s' | Stop r \<Rightarrow> - 1) = 11"
    by code_simp
  then obtain s' where s': "?step = Continue s'" and n: "yp_count s' = 11"
    by (cases ?step) auto
  from C10_yelp_offset_step [THEN conjunct1, THEN mp, OF s']
  have "yp_offset s' = 10" by simp
  with s' n show ?thesis by blast
qed


text \<open>The normalizer on a raw tweet of that shape, lookup by lookup.\<close>

lemma py_get_sub:
  assumes "field_ok P k x" and "P (JDict [])"
  obtains v where "py_get x k (JDict []) = Inr v" and "P v"
    and "\<And>d k' ks. lookup_or d v (k' # ks) = lookup_or d x (k # k' # ks)"
proof -
  from assms(1) obtain kvs where x: "x = JDict kvs" by (cases x) auto
  show thesis
  proof (cases "map_of kvs k")
    case None
    with x assms(2) show ?thesis by (intro that [of "JDict []"]) auto
  next
    case (Some v)
    with x assms(1) show ?thesis by (intro that [of v]) auto
  qed
qed

lemma get_fields_at:
  "is_dict x \<Longrightarrow> get_fields ks x = Inr (fields_at x [] ks)"
proof (induction ks)
  case Nil then show ?case by (simp add: fields_at_def)
next
  case (Cons a ks)
  from Cons.prems obtain kvs where "x = JDict kvs" by (cases x) auto
  with Cons show ?case
    by (cases a) (auto simp: bindE_def fields_at_def split: option.splits)
qed

lemma get_each_dicts:
  "list_all is_dict xs \<Longrightarrow> get_each k xs = Inr (map (\<lambda>x. lookup_or JNull x [k]) xs)"
proof (induction xs)
  case Nil then show ?case by simp
next
  case (Cons x xs)
  then obtain kvs where "x = JDict kvs" by (cases x) auto
  with Cons show ?case by (auto simp: bindE_def split: option.splits)
qed

lemma dict_each_dicts:
  "list_all is_dict xs \<Longrightarrow>
     dict_each ks xs = Inr (map (\<lambda>x. JDict (fields_at x [] ks)) xs)"
proof (induction xs)
  case Nil then show ?case by simp
next
  case (Cons x xs)
  then show ?case by (auto simp: bindE_def get_fields_at)
qed

lemma py_get_list:
  assumes "field_ok is_dict_list k en"
  obtains xs where "py_get en k (JList []) = Inr (JList xs)" and "list_all is_dict xs"
    and "items_at en [k] = xs" and "py_contains k en = Inr True \<or> xs = []"
    and "\<exists>b. py_contains k en = Inr b"
proof -
  from assms obtain kvs where en: "en = JDict kvs" by (cases en) auto
  show thesis
  proof (cases "map_of kvs k")
    case None
    with en show ?thesis by (intro that [of "[]"]) (auto simp: items_at_def)
  next
    case (Some v)
    with en assms obtain xs where "v = JList xs" by (cases v) auto
    with Some en assms show ?thesis
      by (intro that [of xs]) (auto simp: items_at_def dest: map_of_SomeD intro!: image_eqI [where x = "(k, JList xs)"])
  qed
qed


lemma bindE_Inr: "bindE (Inr x) f = f x"
  by (simp add: bindE_def)

lemma py_get_scalar:
  "is_dict x \<Longrightarrow> py_get x k d = Inr (lookup_or d x [k])"
  by (cases x) (auto split: option.splits)

lemma extract_tweet_data_shaped:
  assumes "tweet_shaped tweet"
  shows "extract_tweet_data tweet = Inr (normalized_tweet tweet)"
proof -
  from assms have sh: "field_ok (field_ok entities_shaped ''entities'') ''legacy'' tweet"
    and ch: "field_ok (field_ok (field_ok (field_ok is_dict ''legacy'') ''result'')
               ''user_results'') ''core'' tweet"
    by (simp_all add: tweet_shaped_def)
  from sh have td: "is_dict tweet" by (cases tweet) auto
  have empty_en: "entities_shaped (JDict [])" by (simp add: entities_shaped_def)
  from sh obtain legacy where
    l1: "py_get tweet ''legacy'' (JDict []) = Inr legacy" and
    l2: "field_ok entities_shaped ''entities'' legacy" and
    l3: "\<And>d k' ks. lookup_or d legacy (k' # ks) = lookup_or d tweet (''legacy'' # k' # ks)"
    by (rule py_get_sub) (simp, blast)
  from l2 have ld: "is_dict legacy" by (cases legacy) auto
  from ch obtain core where
    c1: "py_get tweet ''core'' (JDict []) = Inr core" and
    c2: "field_ok (field_ok (field_ok is_dict ''legacy'') ''result'') ''user_results'' core" and
    c3: "\<And>d k' ks. lookup_or d core (k' # ks) = lookup_or d tweet (''core'' # k' # ks)"
    by (rule py_get_sub) (simp, blast)
  from c2 obtain ur where
    u1: "py_get core ''user_results'' (JDict []) = Inr ur" and
    u2: "field_ok (field_ok is_dict ''legacy'') ''result'' ur" and
    u3: "\<And>d k' ks. lookup_or d ur (k' # ks) = lookup_or d core (''user_results'' # k' # ks)"
    by (rule py_get_sub) (simp, blast)
  from u2 obtain res where
    r1: "py_get ur ''result'' (JDict []) = Inr res" and
    r2: "field_ok is_dict ''legacy'' res" and
    r3: "\<And>d k' ks. lookup_or d res (k' # ks) = lookup_or d ur (''result'' # k' # ks)"
    by (rule py_get_sub) (simp, blast)
  from r2 obtain user where
    s1: "py_get res ''legacy'' (JDict []) = Inr user" and
    s2: "is_dict user" and
    s3: "\<And>d k' ks. lookup_or d user (k' # ks) = lookup_or d res (''legacy'' # k' # ks)"
    by (rule py_get_sub) (simp, blast)
  from l2 empty_en obtain en where
    e1: "py_get legacy ''entities'' (JDict []) = Inr en" and
    e2: "entities_shaped en" and
    e3: "\<And>d k' ks. lookup_or d en (k' # ks) = lookup_or d legacy (''entities'' # k' # ks)"
    by (rule py_get_sub) blast
  from e2 have eh: "field_ok is_dict_list ''hashtags'' en"
    and eu: "field_ok is_dict_list ''urls'' en"
    and em: "field_ok is_dict_list ''user_mentions'' en"
    and ed: "field_ok is_dict_list ''media'' en"
    by (simp_all add: entities_shaped_def)
  from eh obtain hs where
    h1: "py_get en ''hashtags'' (JList []) = Inr (JList hs)" and h2: "list_all is_dict hs"
    and h3: "items_at en [''hashtags''] = hs"
    by (rule py_get_list) blast
  from eu obtain us where
    v1: "py_get en ''urls'' (JList []) = Inr (JList us)" and v2: "list_all is_dict us"
    and v3: "items_at en [''urls''] = us"
    by (rule py_get_list) blast
  from em obtain ms where
    m1: "py_get en ''user_mentions'' (JList []) = Inr (JList ms)" and m2: "list_all is_dict ms"
    and m3: "items_at en [''user_mentions''] = ms"
    by (rule py_get_list) blast
  from ed obtain md where
    d1: "py_get en ''media'' (JList []) = Inr (JList md)" and d2: "list_all is_dict md"
    and d3: "items_at en [''media''] = md"
    and d4: "py_contains ''media'' en = Inr True \<or> md = []"
    and d5: "\<exists>b. py_contains ''media'' en = Inr b"
    by (rule py_get_list) blast
  have user_path: "py_get_path tweet [(''core'', JDict []), (''user_results'', JDict []),
                     (''result'', JDict []), (''legacy'', JDict [])] = Inr user"
    by (simp add: bindE_def c1 u1 r1 s1)
  have items: "\<And>k. items_at tweet [''legacy'', ''entities'', k] = items_at en [k]"
    by (simp add: items_at_def e3 l3)
  have legacy_fields: "\<And>ks. fields_at legacy [] ks = fields_at tweet [''legacy''] ks"
    by (simp add: fields_at_def l3)
  have user_at: "\<And>d k. lookup_or d user [k]
                   = lookup_or d tweet [''core'', ''user_results'', ''result'', ''legacy'', k]"
    by (simp add: s3 r3 u3 c3)
  have user_fields: "\<And>ks. fields_at user [] ks
                        = fields_at tweet [''core'', ''user_results'', ''result'', ''legacy''] ks"
    by (simp add: fields_at_def user_at)
  have a0: "py_get tweet ''rest_id'' JNull = Inr (lookup_or JNull tweet [''rest_id''])"
    by (rule py_get_scalar [OF td])
  have a1: "\<And>ks. get_fields ks legacy = Inr (fields_at tweet [''legacy''] ks)"
    by (simp only: get_fields_at [OF ld] legacy_fields)
  have a2: "\<And>ks. get_fields ks user
              = Inr (fields_at tweet [''core'', ''user_results'', ''result'', ''legacy''] ks)"
    by (simp only: get_fields_at [OF s2] user_fields)
  have a3: "py_get user ''verified'' (JBool False)
              = Inr (lookup_or (JBool False) tweet
                       [''core'', ''user_results'', ''result'', ''legacy'', ''verified''])"
    by (simp only: py_get_scalar [OF s2] user_at)
  have a4: "bindE (entities_of legacy) (\<lambda>en. bindE (py_get en ''hashtags'' (JList []))
              (\<lambda>hs. bindE (py_iter hs) (get_each ''text'')))
            = Inr (map (\<lambda>h. lookup_or JNull h [''text''])
                     (items_at tweet [''legacy'', ''entities'', ''hashtags'']))"
    by (simp add: entities_of_def e1 h1 bindE_Inr get_each_dicts [OF h2] items h3)
  have a5: "bindE (entities_of legacy) (\<lambda>en. bindE (py_get en ''urls'' (JList []))
              (\<lambda>us. bindE (py_iter us) (get_each ''expanded_url'')))
            = Inr (map (\<lambda>u. lookup_or JNull u [''expanded_url''])
                     (items_at tweet [''legacy'', ''entities'', ''urls'']))"
    by (simp add: entities_of_def e1 v1 bindE_Inr get_each_dicts [OF v2] items v3)
  have a6: "\<And>ks. bindE (entities_of legacy) (\<lambda>en. bindE (py_get en ''user_mentions'' (JList []))
              (\<lambda>ms. bindE (py_iter ms) (dict_each ks)))
            = Inr (map (\<lambda>m. JDict (fields_at m [] ks))
                     (items_at tweet [''legacy'', ''entities'', ''user_mentions'']))"
    by (simp add: entities_of_def e1 m1 bindE_Inr dict_each_dicts [OF m2] items m3)
  have a7: "\<And>ks. bindE (entities_of legacy) (\<lambda>en. bindE (py_contains ''media'' en) (\<lambda>has_media.
              if has_media then
                bindE (entities_of legacy) (\<lambda>en'. bindE (py_get en' ''media'' (JList []))
                  (\<lambda>ms. bindE (py_iter ms) (dict_each ks)))
              else Inr []))
            = Inr (map (\<lambda>m. JDict (fields_at m [] ks))
                     (items_at tweet [''legacy'', ''entities'', ''media'']))"
    using d4 d5
    by (auto simp: entities_of_def e1 d1 bindE_Inr dict_each_dicts [OF d2] items d3)
  show ?thesis
    unfolding extract_tweet_data_def normalized_tweet_def
    by (simp only: l1 user_path a0 a1 a2 a3 a4 a5 a6 a7 bindE_Inr)
qed

text \<open>
  C9. The normalizers do not raise on missing fields. On a raw tweet whose present fields
  have the container types the normalizer reads them as (whatever fields are missing),
  \<^verbatim>\<open>extract_tweet_data\<close> returns the record in which every scalar is the value found or
  \<^verbatim>\<open>None\<close>, \<^verbatim>\<open>verified\<close> is the value found or \<^verbatim>\<open>False\<close>, and every list holds the items
  found or is empty. A job card of an Indeed page always parses: an element that is not
  found gives \<^verbatim>\<open>None\<close>, or the marker \<^verbatim>\<open>Unknown Title\<close>, \<^verbatim>\<open>Unknown Company\<close> or
  \<^verbatim>\<open>Unknown Location\<close>.
\<close>

theorem C9_absent_fields_default:
  "(tweet_shaped tweet \<longrightarrow> extract_tweet_data tweet = Inr (normalized_tweet tweet))
   \<and> (jc_title jcard = None \<longrightarrow>
        lookup_or (JStr ''absent'') (parse_job_card jcard) [''title''] = JStr ''Unknown Title''
        \<and> lookup_or (JStr ''absent'') (parse_job_card jcard) [''id''] = JNull
        \<and> lookup_or (JStr ''absent'') (parse_job_card jcard) [''url''] = JNull)
   \<and> (jc_company jcard = None \<longrightarrow>
        lookup_or (JStr ''absent'') (parse_job_card jcard) [''company'']
          = JStr ''Unknown Company'')
   \<and> (jc_location jcard = None \<longrightarrow>
        lookup_or (JStr ''absent'') (parse_job_card jcard) [''location'']
          = JStr ''Unknown Location'')
   \<and> (jc_salary jcard = None \<longrightarrow>
        lookup_or (JStr ''absent'') (parse_job_card jcard) [''salary''] = JNull)
   \<and> (jc_snippet jcard = None \<longrightarrow>
        lookup_or (JStr ''absent'') (parse_job_card jcard) [''description''] = JNull)
   \<and> (jc_date jcard = None \<longrightarrow>
        lookup_or (JStr ''absent'') (parse_job_card jcard) [''date_posted''] = JNull)"
proof (intro conjI impI)
  assume "tweet_shaped tweet"
  then show "extract_tweet_data tweet = Inr (normalized_tweet tweet)"
    by (rule extract_tweet_data_shaped)
qed (simp_all add: parse_job_card_def Let_def opt_attr_def opt_text_def)

theorem C9_absent_fields_default_witness:
  "extract_tweet_data
     (JDict [(''rest_id'', JStr ''7''),
             (''legacy'', JDict [(''full_text'', JStr ''hi''),
                (''entities'', JDict [(''hashtags'', JList [JDict [(''text'', JStr ''a'')]])])])])
     = Inr (JDict [(''id'', JStr ''7''), (''created_at'', JNull), (''text'', JStr ''hi''),
                   (''retweet_count'', JNull), (''favorite_count'', JNull),
                   (''reply_count'', JNull), (''quote_count'', JNull),
                   (''user'', JDict [(''id'', JNull), (''name'', JNull), (''screen_name'', JNull),
                                     (''followers_count'', JNull), (''friends_count'', JNull),
                                     (''verified'', JBool False)]),
                   (''hashtags'', JList [JStr ''a'']), (''urls'', JList []),
                   (''mentions'', JList []), (''media'', JList [])])
   \<and> lookup_or (JStr ''absent'') (parse_job_card bare_card) [''title''] = JStr ''Unknown Title''
   \<and> lookup_or (JStr ''absent'') (parse_job_card bare_card) [''id''] = JNull
   \<and> lookup_or (JStr ''absent'') (parse_job_card bare_card) [''url''] = JNull
   \<and> lookup_or (JStr ''absent'') (parse_job_card bare_card) [''company'']
       = JStr ''Unknown Company''
   \<and> lookup_or (JStr ''absent'') (parse_job_card bare_card) [''location'']
       = JStr ''Unknown Location''
   \<and> lookup_or (JStr ''absent'') (parse_job_card bare_card) [''salary''] = JNull
   \<and> lookup_or (JStr ''absent'') (parse_job_card bare_card) [''description''] = JNull
   \<and> lookup_or (JStr ''absent'') (parse_job_card bare_card) [''date_posted''] = JNull"
proof -
  let ?tweet = "JDict [(''rest_id'', JStr ''7''),
             (''legacy'', JDict [(''full_text'', JStr ''hi''),
                (''entities'', JDict [(''hashtags'', JList [JDict [(''text'', JStr ''a'')]])])])]"
  have shaped: "tweet_shaped ?tweet"
    by code_simp
  have norm: "normalized_tweet ?tweet
     = JDict [(''id'', JStr ''7''), (''created_at'', JNull), (''text'', JStr ''hi''),
                   (''retweet_count'', JNull), (''favorite_count'', JNull),
                   (''reply_count'', JNull), (''quote_count'', JNull),
                   (''user'', JDict [(''id'', JNull), (''name'', JNull), (''screen_name'', JNull),
                                     (''followers_count'', JNull), (''friends_count'', JNull),
                                     (''verified'', JBool False)]),
                   (''hashtags'', JList [JStr ''a'']), (''urls'', JList []),
                   (''mentions'', JList []), (''media'', JList [])]"
    by code_simp
  have none: "jc_title bare_card = None" "jc_company bare_card = None"
    "jc_location bare_card = None" "jc_salary bare_card = None"
    "jc_snippet bare_card = None" "jc_date bare_card = None"
    by (simp_all add: bare_card_def)
  from C9_absent_fields_default [of ?tweet bare_card] shaped norm none
  show ?thesis by simp
qed

theorem C9_null_field_counterexample:
  "extract_tweet_data (JDict [(''legacy'', JNull)]) = Inl AttributeError
   \<and> extract_tweet_data
       (JDict [(''legacy'', JDict [(''entities'', JDict [(''hashtags'', JNull)])])])
     = Inl TypeError"
  by code_simp


text \<open>
  C5. A bootstrap or a query that is answered with a status other than 200 ends with an
  exception that reaches the caller: an \<^verbatim>\<open>Exception\<close> whose message names the stage and
  the status code (and the response text, for Twitter and for the Indeed GraphQL query).
  So does a GraphQL query without its token. The one query whose failure does not reach
  the caller is the POST of the Yelp \<^verbatim>\<open>search_graphql\<close>: the method returns what
  \<^verbatim>\<open>search\<close> returns instead.
\<close>

theorem C5_failures_raise_generic_exception:
  assumes "status_code resp \<noteq> 200"
  shows
   "(srv log TwitterActivate = Inr resp \<longrightarrow>
       obtain_guest_token srv log
         = (Inl (Exception (''Failed to obtain guest token: '' @ str_of_int (status_code resp)
                              @ '' '' @ body_text resp)), log @ [TwitterActivate]))
    \<and> (srv log (TwitterSearch query count (if truthy cursor then Some cursor else None)) = Inr resp \<longrightarrow>
       twitter_search srv log query count cursor
         = (Inl (Exception (''Search failed: '' @ str_of_int (status_code resp)
                              @ '' '' @ body_text resp)),
            log @ [TwitterSearch query count (if truthy cursor then Some cursor else None)]))
    \<and> (srv log IndeedHome = Inr resp \<longrightarrow>
       indeed_initialize_session srv log
         = (Inl (Exception (''Failed to initialize session: '' @ str_of_int (status_code resp))),
            log @ [IndeedHome]))
    \<and> (srv log (IndeedJobs query location (page * limit) limit) = Inr resp \<longrightarrow>
       indeed_search srv iclient log query location page limit
         = (Inl (Exception (''Search failed: '' @ str_of_int (status_code resp))),
            log @ [IndeedJobs query location (page * limit) limit]))
    \<and> (in_indeed_csrf_token iclient = Some token \<and> token \<noteq> []
        \<and> srv log (IndeedGraphQL query location page limit mosaic_id token) = Inr resp \<longrightarrow>
       indeed_search_graphql srv iclient log query location page limit mosaic_id
         = (Inl (Exception (''GraphQL search failed: '' @ str_of_int (status_code resp)
                              @ '' '' @ body_text resp)),
            log @ [IndeedGraphQL query location page limit mosaic_id token]))
    \<and> (srv log YelpHome = Inr resp \<longrightarrow>
       yelp_initialize_session srv log
         = (Inl (Exception (''Failed to initialize session: '' @ str_of_int (status_code resp))),
            log @ [YelpHome]))
    \<and> (srv log (YelpSearch query location offset) = Inr resp \<longrightarrow>
       yelp_search srv log query location offset limit
         = (Inl (Exception (''Search failed: '' @ str_of_int (status_code resp))),
            log @ [YelpSearch query location offset]))
    \<and> (yp_csrf_token yclient = Some token \<and> token \<noteq> []
        \<and> srv log (YelpGraphQL query location offset limit token) = Inr resp \<longrightarrow>
       yelp_search_graphql srv yclient log query location offset limit
         = yelp_search srv (log @ [YelpGraphQL query location offset limit token])
             query location offset limit)
    \<and> (in_indeed_csrf_token iclient = None \<longrightarrow>
       indeed_search_graphql srv iclient log query location page limit mosaic_id
         = (Inl (Exception ''GraphQL CSRF token not available''), log))
    \<and> (yp_csrf_token yclient = None \<longrightarrow>
       yelp_search_graphql srv yclient log query location offset limit
         = (Inl (Exception ''CSRF token not available''), log))"
  using assms
  by (simp add: obtain_guest_token_def twitter_search_def indeed_initialize_session_def
        indeed_search_def indeed_search_graphql_def yelp_initialize_session_def
        yelp_search_def yelp_search_graphql_def send_def)


theorem C5_failures_raise_generic_exception_witness:
  "obtain_guest_token site_down []
     = (Inl (Exception ''Failed to obtain guest token: 503 ''), [TwitterActivate])
   \<and> twitter_search site_down [] ''q'' 5 JNull
     = (Inl (Exception ''Search failed: 503 ''), [TwitterSearch ''q'' 5 None])
   \<and> indeed_initialize_session site_down []
     = (Inl (Exception ''Failed to initialize session: 503''), [IndeedHome])
   \<and> indeed_search site_down \<lparr>in_csrf_token = None, in_indeed_csrf_token = Some ''tok''\<rparr> []
        ''q'' ''NYC'' 1 5
     = (Inl (Exception ''Search failed: 503''), [IndeedJobs ''q'' ''NYC'' 5 5])
   \<and> indeed_search_graphql site_down \<lparr>in_csrf_token = None, in_indeed_csrf_token = Some ''tok''\<rparr>
        [] ''q'' ''NYC'' 1 5 ''m1''
     = (Inl (Exception ''GraphQL search failed: 503 ''),
        [IndeedGraphQL ''q'' ''NYC'' 1 5 ''m1'' ''tok''])
   \<and> yelp_initialize_session site_down []
     = (Inl (Exception ''Failed to initialize session: 503''), [YelpHome])
   \<and> yelp_search site_down [] ''q'' ''NYC'' 0 5
     = (Inl (Exception ''Search failed: 503''), [YelpSearch ''q'' ''NYC'' 0])
   \<and> yelp_search_graphql site_down \<lparr>yp_csrf_token = Some ''tok''\<rparr> [] ''q'' ''NYC'' 0 5
     = yelp_search site_down [YelpGraphQL ''q'' ''NYC'' 0 5 ''tok''] ''q'' ''NYC'' 0 5"
proof -
  have st: "status_code (status_only 503) \<noteq> 200"
    by (simp add: status_only_def)
  have s: "str_of_int 503 = ''503''"
    by code_simp
  from C5_failures_raise_generic_exception
         [OF st, of site_down "[]" "''q''" 5 JNull "''NYC''" 1 5
            "\<lparr>in_csrf_token = None, in_indeed_csrf_token = Some ''tok''\<rparr>" "''tok''" "''m1''"
            0 "\<lparr>yp_csrf_token = Some ''tok''\<rparr>"]
  show ?thesis
    by (simp add: site_down_def status_only_def s)
qed

theorem C5_generic_exception_counterexample:
  "(case fst (obtain_guest_token site_down []) of Inl e \<Rightarrow> is_catch_all e | Inr t \<Rightarrow> False)
   \<and> (case fst (twitter_search site_down [] ''q'' 5 JNull) of
        Inl e \<Rightarrow> is_catch_all e | Inr d \<Rightarrow> False)
   \<and> (case fst (indeed_initialize_session site_down []) of
        Inl e \<Rightarrow> is_catch_all e | Inr c \<Rightarrow> False)
   \<and> (case fst (yelp_search_graphql (yelp_listing 2) \<lparr>yp_csrf_token = Some ''tok''\<rparr> []
                  ''pizza'' ''NYC'' 0 5) of
        Inl e \<Rightarrow> False | Inr d \<Rightarrow> True)"
  by code_simp


text \<open>The count of a run: what one batch adds to it, then the whole loop.\<close>

lemma yield_jobs_bound:
  "yield_jobs m c items = (ys, n, err) \<Longrightarrow> c < m \<Longrightarrow> n \<le> m"
proof (induction items arbitrary: c ys n err)
  case Nil
  then show ?case by simp
next
  case (Cons job rest)
  show ?case
  proof (cases "job_record job")
    case (Inl e)
    with Cons.prems show ?thesis by simp
  next
    case (Inr r)
    show ?thesis
    proof (cases "c + 1 \<ge> m")
      case True
      with Cons.prems Inr show ?thesis by auto
    next
      case False
      obtain ys' n' err' where rec: "yield_jobs m (c + 1) rest = (ys', n', err')"
        by (cases "yield_jobs m (c + 1) rest") auto
      from False have "c + 1 < m" by simp
      from Cons.IH [OF rec this] have "n' \<le> m" .
      with Cons.prems Inr False rec show ?thesis by auto
    qed
  qed
qed

lemma yield_jobs_within:
  "yield_jobs m c items = (ys, n, err) \<Longrightarrow> c < m \<Longrightarrow>
     n = c + int (length ys) \<and> c + int (length ys) \<le> m"
  using yield_jobs_bound yield_jobs_count by blast

lemma indeed_step_stop:
  assumes "indeed_step srv client q l m s = Stop r"
    and "int (length (in_yielded s)) = in_count s" and "in_count s < m"
  shows "int (length (yielded r)) \<le> m"
  using assms
  by (auto simp: indeed_step_def Let_def
      split: if_splits prod.splits sum.splits option.splits
      dest: yield_jobs_within)

lemma indeed_step_continue:
  assumes "indeed_step srv client q l m s = Continue s'"
    and "int (length (in_yielded s)) = in_count s" and "in_count s < m"
  shows "int (length (in_yielded s')) = in_count s' \<and> in_count s' \<le> m"
  using assms
  by (auto simp: indeed_step_def Let_def
      split: if_splits prod.splits sum.splits option.splits
      dest: yield_jobs_within)

lemma indeed_loop_bound:
  "int (length (in_yielded s)) = in_count s \<Longrightarrow> in_count s \<le> m \<Longrightarrow>
     int (length (yielded (indeed_loop srv client q l m s))) \<le> m"
proof (induction srv client q l m s rule: indeed_loop.induct)
  case (1 srv client q l m s)
  show ?case
  proof (cases "in_count s < m")
    case False
    with "1.prems" show ?thesis by (subst indeed_loop.simps) simp
  next
    case True
    show ?thesis
    proof (cases "indeed_step srv client q l m s")
      case (Stop r)
      with True indeed_step_stop [OF Stop "1.prems"(1) True] show ?thesis
        by (subst indeed_loop.simps) simp
    next
      case (Continue s')
      from indeed_step_continue [OF Continue "1.prems"(1) True]
      have "int (length (yielded (indeed_loop srv client q l m s'))) \<le> m"
        using "1.IH" [OF True Continue] by blast
      with True Continue show ?thesis by (subst indeed_loop.simps) simp
    qed
  qed
qed

lemma yield_businesses_bound:
  "yield_businesses m c items = (ys, n) \<Longrightarrow> c < m \<Longrightarrow> n \<le> m"
proof (induction items arbitrary: c ys n)
  case Nil
  then show ?case by simp
next
  case (Cons b rest)
  show ?case
  proof (cases "c + 1 \<ge> m")
    case True
    with Cons.prems show ?thesis by auto
  next
    case False
    obtain ys' n' where rec: "yield_businesses m (c + 1) rest = (ys', n')"
      by (cases "yield_businesses m (c + 1) rest") auto
    from False have "c + 1 < m" by simp
    from Cons.IH [OF rec this] have "n' \<le> m" .
    with Cons.prems False rec show ?thesis by auto
  qed
qed

lemma yield_businesses_within:
  "yield_businesses m c items = (ys, n) \<Longrightarrow> c < m \<Longrightarrow>
     n = c + int (length ys) \<and> c + int (length ys) \<le> m"
  using yield_businesses_bound yield_businesses_count by blast

lemma yelp_step_stop:
  assumes "yelp_step srv client q l m s = Stop r"
    and "int (length (yp_yielded s)) = yp_count s" and "yp_count s < m"
  shows "int (length (yielded r)) \<le> m"
  using assms
  by (auto simp: yelp_step_def Let_def
      split: if_splits prod.splits sum.splits
      dest: yield_businesses_within)

lemma yelp_step_continue:
  assumes "yelp_step srv client q l m s = Continue s'"
    and "int (length (yp_yielded s)) = yp_count s" and "yp_count s < m"
  shows "int (length (yp_yielded s')) = yp_count s' \<and> yp_count s' \<le> m"
  using assms
  by (auto simp: yelp_step_def Let_def
      split: if_splits prod.splits sum.splits
      dest: yield_businesses_within)

lemma yelp_loop_bound:
  "int (length (yp_yielded s)) = yp_count s \<Longrightarrow> yp_count s \<le> m \<Longrightarrow>
     int (length (yielded (yelp_loop srv client q l m s))) \<le> m"
proof (induction srv client q l m s rule: yelp_loop.induct)
  case (1 srv client q l m s)
  show ?case
  proof (cases "yp_count s < m")
    case False
    with "1.prems" show ?thesis by (subst yelp_loop.simps) simp
  next
    case True
    show ?thesis
    proof (cases "yelp_step srv client q l m s")
      case (Stop r)
      with True yelp_step_stop [OF Stop "1.prems"(1) True] show ?thesis
        by (subst yelp_loop.simps) simp
    next
      case (Continue s')
      from yelp_step_continue [OF Continue "1.prems"(1) True]
      have "int (length (yielded (yelp_loop srv client q l m s'))) \<le> m"
        using "1.IH" [OF True Continue] by blast
      with True Continue show ?thesis by (subst yelp_loop.simps) simp
    qed
  qed
qed

lemma twitter_step_continue:
  assumes "twitter_step srv q m s = Continue s'"
    and "int (length (tw_yielded s)) = tw_count s"
  shows "int (length (tw_yielded s')) = tw_count s' \<and> tw_count s' \<le> m"
  using assms
  by (auto simp: twitter_step_def Let_def
      split: sum.splits prod.splits option.splits if_splits)

lemma twitter_between_batches:
  assumes "(twitter_next srv q m)\<^sup>*\<^sup>* s0 s"
    and "int (length (tw_yielded s0)) = tw_count s0" and "tw_count s0 \<le> m"
  shows "int (length (tw_yielded s)) = tw_count s \<and> tw_count s \<le> m"
  using assms
proof (induction rule: rtranclp_induct)
  case base
  then show ?case by simp
next
  case (step y z)
  then have "twitter_step srv q m y = Continue z" by (simp add: twitter_next_def)
  with step show ?case by (auto dest: twitter_step_continue)
qed

lemma twitter_step_stop:
  assumes "twitter_step srv q m s = Stop r" and "twitter_batch_bounded srv q m s"
    and "int (length (tw_yielded s)) = tw_count s" and "tw_count s < m"
  shows "int (length (yielded r)) \<le> m"
proof -
  let ?b = "min 20 (m - tw_count s)"
  from assms(4) have pos: "\<not> ?b \<le> 0" by simp
  obtain res log' where search: "twitter_search srv (tw_calls s) q ?b (tw_cursor s) = (res, log')"
    by (cases "twitter_search srv (tw_calls s) q ?b (tw_cursor s)") auto
  show ?thesis
  proof (cases res)
    case (Inl e)
    with assms search pos show ?thesis by (auto simp: twitter_step_def Let_def)
  next
    case (Inr data)
    show ?thesis
    proof (cases "timeline_entries data")
      case (Inl e)
      with assms search pos Inr show ?thesis by (auto simp: twitter_step_def Let_def)
    next
      case entries: (Inr es)
      from assms(2) search Inr entries
      have "int (length (fst (yield_tweets es))) \<le> ?b"
        by (simp add: twitter_batch_bounded_def Let_def)
      then have "tw_count s + int (length (fst (yield_tweets es))) \<le> m" by simp
      with assms search pos Inr entries show ?thesis
        by (auto simp: twitter_step_def Let_def split: sum.splits prod.splits option.splits if_splits)
    qed
  qed
qed

lemma twitter_loop_bound:
  assumes run: "twitter_loop srv q m s = Some r"
  shows "(\<forall>s'. (twitter_next srv q m)\<^sup>*\<^sup>* s s' \<longrightarrow> tw_count s' < m \<longrightarrow>
              twitter_batch_bounded srv q m s') \<longrightarrow>
         int (length (tw_yielded s)) = tw_count s \<longrightarrow>
         tw_count s \<le> m \<longrightarrow> int (length (yielded r)) \<le> m"
proof (rule twitter_loop.raw_induct
    [where P = "\<lambda>srv q m s r.
       (\<forall>s'. (twitter_next srv q m)\<^sup>*\<^sup>* s s' \<longrightarrow> tw_count s' < m \<longrightarrow>
              twitter_batch_bounded srv q m s') \<longrightarrow>
       int (length (tw_yielded s)) = tw_count s \<longrightarrow>
       tw_count s \<le> m \<longrightarrow> int (length (yielded r)) \<le> m", OF _ run])
  fix loop :: "server \<Rightarrow> string \<Rightarrow> int \<Rightarrow> twitter_state \<Rightarrow> run option"
  fix srv q m s r
  assume IH: "\<And>srv q m s r. loop srv q m s = Some r \<Longrightarrow>
       (\<forall>s'. (twitter_next srv q m)\<^sup>*\<^sup>* s s' \<longrightarrow> tw_count s' < m \<longrightarrow>
              twitter_batch_bounded srv q m s') \<longrightarrow>
       int (length (tw_yielded s)) = tw_count s \<longrightarrow>
       tw_count s \<le> m \<longrightarrow> int (length (yielded r)) \<le> m"
    and eq: "(if tw_count s < m then
                (case twitter_step srv q m s of
                   Continue s' \<Rightarrow> loop srv q m s'
                 | Stop r \<Rightarrow> Some r)
              else Some \<lparr>yielded = tw_yielded s, calls = tw_calls s, outcome = Finished\<rparr>)
             = Some r"
  show "(\<forall>s'. (twitter_next srv q m)\<^sup>*\<^sup>* s s' \<longrightarrow> tw_count s' < m \<longrightarrow>
              twitter_batch_bounded srv q m s') \<longrightarrow>
       int (length (tw_yielded s)) = tw_count s \<longrightarrow>
       tw_count s \<le> m \<longrightarrow> int (length (yielded r)) \<le> m"
  proof (intro impI)
    assume b: "\<forall>s'. (twitter_next srv q m)\<^sup>*\<^sup>* s s' \<longrightarrow> tw_count s' < m \<longrightarrow>
                 twitter_batch_bounded srv q m s'"
      and inv: "int (length (tw_yielded s)) = tw_count s" and le: "tw_count s \<le> m"
    show "int (length (yielded r)) \<le> m"
    proof (cases "tw_count s < m")
      case False
      with eq inv le show ?thesis by auto
    next
      case True
      with b have here: "twitter_batch_bounded srv q m s" by blast
      show ?thesis
      proof (cases "twitter_step srv q m s")
        case (Stop r')
        with True eq have "r' = r" by simp
        with twitter_step_stop [OF Stop here inv True] show ?thesis by simp
      next
        case (Continue s1)
        with True eq have run1: "loop srv q m s1 = Some r" by simp
        from True Continue have "twitter_next srv q m s s1" by (simp add: twitter_next_def)
        with b have "\<forall>s'. (twitter_next srv q m)\<^sup>*\<^sup>* s1 s' \<longrightarrow> tw_count s' < m \<longrightarrow>
                 twitter_batch_bounded srv q m s'"
          by (blast intro: converse_rtranclp_into_rtranclp)
        with IH [OF run1] twitter_step_continue [OF Continue inv]
        show ?thesis by blast
      qed
    qed
  qed
qed

text \<open>What a delivered batch holds, read off the definitions.\<close>

lemma twitter_batch_delivered_holds:
  assumes "twitter_batch_delivered srv q m s"
  obtains response_data log' entries next_cursor ys where
    "twitter_search srv (tw_calls s) q (min 20 (m - tw_count s)) (tw_cursor s)
       = (Inr response_data, log')"
    and "timeline_entries response_data = Inr entries"
    and "find_cursor entries = Inr next_cursor"
    and "yield_tweets entries = (ys, None)"
    and "ys \<noteq> []" and "int (length ys) \<le> min 20 (m - tw_count s)"
    and "truthy next_cursor \<or> m \<le> tw_count s + int (length ys)"
proof -
  obtain res log' where search:
    "twitter_search srv (tw_calls s) q (min 20 (m - tw_count s)) (tw_cursor s) = (res, log')"
    by (cases "twitter_search srv (tw_calls s) q (min 20 (m - tw_count s)) (tw_cursor s)")
  obtain ys err where ys: "yield_tweets (case res of Inr d \<Rightarrow>
      (case timeline_entries d of Inr es \<Rightarrow> es | Inl e \<Rightarrow> []) | Inl e \<Rightarrow> []) = (ys, err)"
    by (cases "yield_tweets (case res of Inr d \<Rightarrow>
      (case timeline_entries d of Inr es \<Rightarrow> es | Inl e \<Rightarrow> []) | Inl e \<Rightarrow> [])")
  from assms search ys that show thesis
    by (auto simp: twitter_batch_delivered_def Let_def split: sum.splits option.splits)
qed

lemma indeed_batch_delivered_holds:
  assumes "indeed_batch_delivered srv client q l m s"
  obtains response_data log' jobs has_next_page items ys n where
    "indeed_search srv client (in_calls s) q l (in_page s) (min page_size (m - in_count s))
       = (Inr response_data, log')"
    and "indeed_batch response_data (min page_size (m - in_count s)) = Inr (jobs, has_next_page)"
    and "py_iter jobs = Inr items" and "items \<noteq> []"
    and "yield_jobs m (in_count s) items = (ys, n, None)"
    and "has_next_page \<or> m \<le> n"
proof -
  obtain res log' where search:
    "indeed_search srv client (in_calls s) q l (in_page s) (min page_size (m - in_count s))
       = (res, log')"
    by (cases "indeed_search srv client (in_calls s) q l (in_page s)
                 (min page_size (m - in_count s))")
  obtain ys n err where ys: "yield_jobs m (in_count s)
      (case res of Inr d \<Rightarrow>
         (case indeed_batch d (min page_size (m - in_count s)) of
            Inr (jobs, signal) \<Rightarrow> (case py_iter jobs of Inr items \<Rightarrow> items | Inl e \<Rightarrow> [])
          | Inl e \<Rightarrow> [])
       | Inl e \<Rightarrow> []) = (ys, n, err)"
    by (cases "yield_jobs m (in_count s)
      (case res of Inr d \<Rightarrow>
         (case indeed_batch d (min page_size (m - in_count s)) of
            Inr (jobs, signal) \<Rightarrow> (case py_iter jobs of Inr items \<Rightarrow> items | Inl e \<Rightarrow> [])
          | Inl e \<Rightarrow> [])
       | Inl e \<Rightarrow> [])")
  from assms search ys that show thesis
    by (auto simp: indeed_batch_delivered_def Let_def split: sum.splits option.splits)
qed

lemma yelp_batch_delivered_holds:
  assumes "yelp_batch_delivered srv client q l m s"
  obtains businesses total_results log' items ys n reached where
    "yelp_batch srv client (yp_calls s) q l (yp_offset s) (min page_size (m - yp_count s))
       = (Inr (businesses, total_results), log')"
    and "py_iter businesses = Inr items" and "items \<noteq> []"
    and "yield_businesses m (yp_count s) items = (ys, n)"
    and "py_ge n total_results = Inr reached"
    and "reached \<longrightarrow> m \<le> n"
proof -
  obtain res log' where batch:
    "yelp_batch srv client (yp_calls s) q l (yp_offset s) (min page_size (m - yp_count s))
       = (res, log')"
    by (cases "yelp_batch srv client (yp_calls s) q l (yp_offset s)
                 (min page_size (m - yp_count s))")
  obtain ys n where ys: "yield_businesses m (yp_count s)
      (case res of Inr (b, t) \<Rightarrow> (case py_iter b of Inr items \<Rightarrow> items | Inl e \<Rightarrow> [])
       | Inl e \<Rightarrow> []) = (ys, n)"
    by (cases "yield_businesses m (yp_count s)
      (case res of Inr (b, t) \<Rightarrow> (case py_iter b of Inr items \<Rightarrow> items | Inl e \<Rightarrow> [])
       | Inl e \<Rightarrow> [])")
  obtain ge where ge: "py_ge n (case res of Inr (b, t) \<Rightarrow> t | Inl e \<Rightarrow> JNull) = ge"
    by simp
  from assms batch ys that ge show thesis
    by (cases ge) (auto simp: yelp_batch_delivered_def Let_def split: sum.splits)
qed

lemma iter_nonempty_truthy:
  "py_iter j = Inr items \<Longrightarrow> items \<noteq> [] \<Longrightarrow> truthy j"
  by (cases j) auto

lemma twitter_loop_delivered:
  shows "(\<forall>s'. (twitter_next srv q m)\<^sup>*\<^sup>* s s' \<longrightarrow> tw_count s' < m \<longrightarrow>
              twitter_batch_delivered srv q m s') \<Longrightarrow>
         int (length (tw_yielded s)) = tw_count s \<Longrightarrow> tw_count s \<le> m \<Longrightarrow>
           \<exists>r. twitter_loop srv q m s = Some r \<and> int (length (yielded r)) = m
                \<and> outcome r = Finished"
proof (induction "nat (m - tw_count s)" arbitrary: s rule: less_induct)
  case less
  show ?case
  proof (cases "tw_count s < m")
    case False
    with less.prems show ?thesis by (subst twitter_loop.simps) simp
  next
    case True
    let ?b = "min 20 (m - tw_count s)"
    from True have pos: "0 < ?b" by simp
    from less.prems(1) True have "twitter_batch_delivered srv q m s" by blast
    then obtain data log' es c ys where
      search: "twitter_search srv (tw_calls s) q ?b (tw_cursor s) = (Inr data, log')"
      and es: "timeline_entries data = Inr es"
      and c: "find_cursor es = Inr c"
      and ys: "yield_tweets es = (ys, None)" "ys \<noteq> []" "int (length ys) \<le> ?b"
      and more: "truthy c \<or> m \<le> tw_count s + int (length ys)"
      by (rule twitter_batch_delivered_holds)
    let ?n = "tw_count s + int (length ys)"
    from ys have within: "?n \<le> m" by simp
    show ?thesis
    proof (cases "\<not> truthy c \<or> ?n \<ge> m")
      case stop: True
      from stop True pos search es c ys
      have "twitter_step srv q m s
              = Stop \<lparr>yielded = tw_yielded s @ ys, calls = log', outcome = Finished\<rparr>"
        by (auto simp: twitter_step_def Let_def)
      moreover from stop more within have "?n = m" by auto
      ultimately show ?thesis
        using True less.prems by (subst twitter_loop.simps) simp
    next
      case False
      let ?s' = "\<lparr>tw_count = ?n, tw_cursor = c,
                  tw_yielded = tw_yielded s @ ys, tw_calls = log'\<rparr>"
      from False True pos search es c ys
      have step: "twitter_step srv q m s = Continue ?s'"
        by (auto simp: twitter_step_def Let_def)
      with True have nxt: "twitter_next srv q m s ?s'" by (simp add: twitter_next_def)
      from ys have "tw_count s < ?n" by (cases ys) auto
      with False have "nat (m - tw_count ?s') < nat (m - tw_count s)" by simp
      moreover from less.prems(1) nxt
      have "\<forall>s'. (twitter_next srv q m)\<^sup>*\<^sup>* ?s' s' \<longrightarrow> tw_count s' < m \<longrightarrow>
              twitter_batch_delivered srv q m s'"
        by (blast intro: converse_rtranclp_into_rtranclp)
      moreover from less.prems have "int (length (tw_yielded ?s')) = tw_count ?s'" by simp
      moreover from False have "tw_count ?s' \<le> m" by simp
      ultimately obtain r where "twitter_loop srv q m ?s' = Some r"
        "int (length (yielded r)) = m" "outcome r = Finished"
        using less.hyps by blast
      with True step show ?thesis by (subst twitter_loop.simps) simp
    qed
  qed
qed

lemma indeed_loop_delivered:
  shows "(\<forall>s'. (indeed_next srv client q l m)\<^sup>*\<^sup>* s s' \<longrightarrow> in_count s' < m \<longrightarrow>
              indeed_batch_delivered srv client q l m s') \<Longrightarrow>
         int (length (in_yielded s)) = in_count s \<Longrightarrow> in_count s \<le> m \<Longrightarrow>
           int (length (yielded (indeed_loop srv client q l m s))) = m
           \<and> outcome (indeed_loop srv client q l m s) = Finished"
proof (induction "nat (m - in_count s)" arbitrary: s rule: less_induct)
  case less
  show ?case
  proof (cases "in_count s < m")
    case False
    with less.prems show ?thesis by (subst (1 2) indeed_loop.simps) simp
  next
    case True
    let ?b = "min page_size (m - in_count s)"
    from True have pos: "0 < ?b" by (simp add: page_size_def)
    from less.prems(1) True have "indeed_batch_delivered srv client q l m s" by blast
    then obtain data log' jobs has_next_page items ys n where
      search: "indeed_search srv client (in_calls s) q l (in_page s) ?b = (Inr data, log')"
      and batch: "indeed_batch data ?b = Inr (jobs, has_next_page)"
      and items: "py_iter jobs = Inr items" "items \<noteq> []"
      and ys: "yield_jobs m (in_count s) items = (ys, n, None)"
      and more: "has_next_page \<or> m \<le> n"
      by (rule indeed_batch_delivered_holds)
    from items have tr: "truthy jobs" by (rule iter_nonempty_truthy)
    from yield_jobs_within [OF ys True]
    have n: "n = in_count s + int (length ys)" and within: "n \<le> m" by simp_all
    show ?thesis
    proof (cases "\<not> has_next_page \<or> n \<ge> m")
      case stop: True
      from stop True pos search batch items tr ys
      have "indeed_step srv client q l m s
              = Stop \<lparr>yielded = in_yielded s @ ys, calls = log', outcome = Finished\<rparr>"
        by (auto simp: indeed_step_def Let_def)
      moreover from stop more within have "n = m" by auto
      ultimately show ?thesis
        using True n less.prems by (subst (1 2) indeed_loop.simps) simp
    next
      case False
      let ?s' = "\<lparr>in_count = n, in_page = in_page s + 1,
                  in_yielded = in_yielded s @ ys, in_calls = log'\<rparr>"
      from False True pos search batch items tr ys
      have step: "indeed_step srv client q l m s = Continue ?s'"
        by (auto simp: indeed_step_def Let_def)
      with True have nxt: "indeed_next srv client q l m s ?s'" by (simp add: indeed_next_def)
      from yield_jobs_progress [OF ys items(2)] have "in_count s < n" .
      with False have "nat (m - in_count ?s') < nat (m - in_count s)" by simp
      moreover from less.prems(1) nxt
      have "\<forall>s'. (indeed_next srv client q l m)\<^sup>*\<^sup>* ?s' s' \<longrightarrow> in_count s' < m \<longrightarrow>
              indeed_batch_delivered srv client q l m s'"
        by (blast intro: converse_rtranclp_into_rtranclp)
      moreover from less.prems n have "int (length (in_yielded ?s')) = in_count ?s'" by simp
      moreover from False have "in_count ?s' \<le> m" by simp
      ultimately have "int (length (yielded (indeed_loop srv client q l m ?s'))) = m
           \<and> outcome (indeed_loop srv client q l m ?s') = Finished"
        using less.hyps by blast
      with True step show ?thesis by (subst (1 2) indeed_loop.simps) simp
    qed
  qed
qed

lemma yelp_loop_delivered:
  shows "(\<forall>s'. (yelp_next srv client q l m)\<^sup>*\<^sup>* s s' \<longrightarrow> yp_count s' < m \<longrightarrow>
              yelp_batch_delivered srv client q l m s') \<Longrightarrow>
         int (length (yp_yielded s)) = yp_count s \<Longrightarrow> yp_count s \<le> m \<Longrightarrow>
           int (length (yielded (yelp_loop srv client q l m s))) = m
           \<and> outcome (yelp_loop srv client q l m s) = Finished"
proof (induction "nat (m - yp_count s)" arbitrary: s rule: less_induct)
  case less
  show ?case
  proof (cases "yp_count s < m")
    case False
    with less.prems show ?thesis by (subst (1 2) yelp_loop.simps) simp
  next
    case True
    let ?b = "min page_size (m - yp_count s)"
    from True have pos: "0 < ?b" by (simp add: page_size_def)
    from less.prems(1) True have "yelp_batch_delivered srv client q l m s" by blast
    then obtain businesses total_results log' items ys n reached where
      batch: "yelp_batch srv client (yp_calls s) q l (yp_offset s) ?b
                = (Inr (businesses, total_results), log')"
      and items: "py_iter businesses = Inr items" "items \<noteq> []"
      and ys: "yield_businesses m (yp_count s) items = (ys, n)"
      and ge: "py_ge n total_results = Inr reached"
      and more: "reached \<longrightarrow> m \<le> n"
      by (rule yelp_batch_delivered_holds)
    from items have tr: "truthy businesses" by (rule iter_nonempty_truthy)
    from yield_businesses_within [OF ys True]
    have n: "n = yp_count s + int (length ys)" and within: "n \<le> m" by simp_all
    show ?thesis
    proof (cases "reached \<or> n \<ge> m")
      case stop: True
      from stop True pos batch items tr ys ge
      have "yelp_step srv client q l m s
              = Stop \<lparr>yielded = yp_yielded s @ ys, calls = log', outcome = Finished\<rparr>"
        by (auto simp: yelp_step_def Let_def)
      moreover from stop more within have "n = m" by auto
      ultimately show ?thesis
        using True n less.prems by (subst (1 2) yelp_loop.simps) simp
    next
      case False
      let ?s' = "\<lparr>yp_count = n, yp_offset = yp_offset s + ?b,
                  yp_yielded = yp_yielded s @ ys, yp_calls = log'\<rparr>"
      from False True pos batch items tr ys ge
      have step: "yelp_step srv client q l m s = Continue ?s'"
        by (auto simp: yelp_step_def Let_def)
      with True have nxt: "yelp_next srv client q l m s ?s'" by (simp add: yelp_next_def)
      from yield_businesses_progress [OF ys items(2)] have "yp_count s < n" .
      with False have "nat (m - yp_count ?s') < nat (m - yp_count s)" by simp
      moreover from less.prems(1) nxt
      have "\<forall>s'. (yelp_next srv client q l m)\<^sup>*\<^sup>* ?s' s' \<longrightarrow> yp_count s' < m \<longrightarrow>
              yelp_batch_delivered srv client q l m s'"
        by (blast intro: converse_rtranclp_into_rtranclp)
      moreover from less.prems n have "int (length (yp_yielded ?s')) = yp_count ?s'" by simp
      moreover from False have "yp_count ?s' \<le> m" by simp
      ultimately have "int (length (yielded (yelp_loop srv client q l m ?s'))) = m
           \<and> outcome (yelp_loop srv client q l m ?s') = Finished"
        using less.hyps by blast
      with True step show ?thesis by (subst (1 2) yelp_loop.simps) simp
    qed
  qed
qed

text \<open>
  The batches of a run on a site that runs out, for a maximum of 25 on a site with 25
  records: the states the run passes through are listed, and every batch it asks for is
  delivered.
\<close>

lemma reach_in_list:
  assumes "r\<^sup>*\<^sup>* s0 s" and "s0 \<in> set xs" and "\<forall>a \<in> set xs. \<forall>b. r a b \<longrightarrow> b \<in> set xs"
  shows "s \<in> set xs"
  using assms by (induction rule: rtranclp_induct) auto

lemma twitter_archive_run:
  assumes "(twitter_next (twitter_archive 25) ''q'' 25)\<^sup>*\<^sup>* (twitter_start []) s"
  shows "twitter_batch_bounded (twitter_archive 25) ''q'' 25 s
         \<and> twitter_batch_delivered (twitter_archive 25) ''q'' 25 s"
proof -
  let ?step = "twitter_step (twitter_archive 25) ''q'' 25"
  define s1 where
    "s1 = (case ?step (twitter_start []) of Continue s' \<Rightarrow> s' | Stop r \<Rightarrow> twitter_start [])"
  have closed: "\<forall>a \<in> set [twitter_start [], s1]. tw_count a < 25 \<longrightarrow>
      (case ?step a of Continue b \<Rightarrow> b \<in> set [twitter_start [], s1] | Stop r \<Rightarrow> True)"
    unfolding s1_def by code_simp
  have ok: "\<forall>a \<in> set [twitter_start [], s1].
      twitter_batch_bounded (twitter_archive 25) ''q'' 25 a
      \<and> twitter_batch_delivered (twitter_archive 25) ''q'' 25 a"
    unfolding s1_def by code_simp
  from closed have "\<forall>a \<in> set [twitter_start [], s1].
      \<forall>b. twitter_next (twitter_archive 25) ''q'' 25 a b \<longrightarrow> b \<in> set [twitter_start [], s1]"
    unfolding twitter_next_def by (auto split: step.splits)
  from reach_in_list [OF assms _ this] have "s \<in> set [twitter_start [], s1]" by simp
  with ok show ?thesis by blast
qed

lemma indeed_board_run:
  assumes "(indeed_next (indeed_board 25) \<lparr>in_csrf_token = None, in_indeed_csrf_token = None\<rparr>
              ''q'' ''NYC'' 25)\<^sup>*\<^sup>* (indeed_start []) s"
  shows "indeed_batch_delivered (indeed_board 25)
           \<lparr>in_csrf_token = None, in_indeed_csrf_token = None\<rparr> ''q'' ''NYC'' 25 s"
proof -
  let ?c = "\<lparr>in_csrf_token = None, in_indeed_csrf_token = None\<rparr>"
  let ?step = "indeed_step (indeed_board 25) ?c ''q'' ''NYC'' 25"
  define s1 where
    "s1 = (case ?step (indeed_start []) of Continue s' \<Rightarrow> s' | Stop r \<Rightarrow> indeed_start [])"
  define s2 where
    "s2 = (case ?step s1 of Continue s' \<Rightarrow> s' | Stop r \<Rightarrow> indeed_start [])"
  have closed: "\<forall>a \<in> set [indeed_start [], s1, s2]. in_count a < 25 \<longrightarrow>
      (case ?step a of Continue b \<Rightarrow> b \<in> set [indeed_start [], s1, s2] | Stop r \<Rightarrow> True)"
    unfolding s1_def s2_def by code_simp
  have ok: "\<forall>a \<in> set [indeed_start [], s1, s2].
      indeed_batch_delivered (indeed_board 25) ?c ''q'' ''NYC'' 25 a"
    unfolding s1_def s2_def by code_simp
  from closed have "\<forall>a \<in> set [indeed_start [], s1, s2].
      \<forall>b. indeed_next (indeed_board 25) ?c ''q'' ''NYC'' 25 a b
          \<longrightarrow> b \<in> set [indeed_start [], s1, s2]"
    unfolding indeed_next_def by (auto split: step.splits)
  from reach_in_list [OF assms _ this] have "s \<in> set [indeed_start [], s1, s2]" by simp
  with ok show ?thesis by blast
qed

lemma yelp_directory_run:
  assumes "(yelp_next (yelp_directory 25) \<lparr>yp_csrf_token = None\<rparr>
              ''q'' ''NYC'' 25)\<^sup>*\<^sup>* (yelp_start []) s"
  shows "yelp_batch_delivered (yelp_directory 25) \<lparr>yp_csrf_token = None\<rparr> ''q'' ''NYC'' 25 s"
proof -
  let ?c = "\<lparr>yp_csrf_token = None\<rparr>"
  let ?step = "yelp_step (yelp_directory 25) ?c ''q'' ''NYC'' 25"
  define s1 where
    "s1 = (case ?step (yelp_start []) of Continue s' \<Rightarrow> s' | Stop r \<Rightarrow> yelp_start [])"
  define s2 where
    "s2 = (case ?step s1 of Continue s' \<Rightarrow> s' | Stop r \<Rightarrow> yelp_start [])"
  have closed: "\<forall>a \<in> set [yelp_start [], s1, s2]. yp_count a < 25 \<longrightarrow>
      (case ?step a of Continue b \<Rightarrow> b \<in> set [yelp_start [], s1, s2] | Stop r \<Rightarrow> True)"
    unfolding s1_def s2_def by code_simp
  have ok: "\<forall>a \<in> set [yelp_start [], s1, s2].
      yelp_batch_delivered (yelp_directory 25) ?c ''q'' ''NYC'' 25 a"
    unfolding s1_def s2_def by code_simp
  from closed have "\<forall>a \<in> set [yelp_start [], s1, s2].
      \<forall>b. yelp_next (yelp_directory 25) ?c ''q'' ''NYC'' 25 a b
          \<longrightarrow> b \<in> set [yelp_start [], s1, s2]"
    unfolding yelp_next_def by (auto split: step.splits)
  from reach_in_list [OF assms _ this] have "s \<in> set [yelp_start [], s1, s2]" by simp
  with ok show ?thesis by blast
qed

text \<open>
  C1. For a maximum \<open>M \<ge> 0\<close>. The Indeed and the Yelp run yield at most \<open>M\<close> records,
  whatever the site answers. On Twitter the count never exceeds \<open>M\<close> between two batches,
  and it is the number of tweets yielded so far, whether the run returns or not; a
  Twitter run that returns has yielded at most \<open>M\<close> tweets when no batch that the run asks
  for holds more tweets than the count asked for. And when every batch that the run asks
  for is delivered (the request does not fail, the batch is not empty and normalizes, and
  it carries its continuation signal unless it completes the maximum), each of the three
  runs returns, ends normally and has yielded exactly \<open>M\<close> records. The conditions are on
  the batches of the run only, those asked for in the states reachable from the start.
\<close>

theorem C1_yield_count:
  assumes "0 \<le> max_results"
  shows
   "int (length (yielded (indeed_search_all srv iclient log query location max_results)))
      \<le> max_results
    \<and> int (length (yielded (yelp_search_all srv yclient log query location max_results)))
      \<le> max_results
    \<and> (\<forall>s. (twitter_next srv query max_results)\<^sup>*\<^sup>* (twitter_start log) s \<longrightarrow>
           int (length (tw_yielded s)) = tw_count s \<and> tw_count s \<le> max_results)
    \<and> ((\<forall>s. (twitter_next srv query max_results)\<^sup>*\<^sup>* (twitter_start log) s \<longrightarrow>
            tw_count s < max_results \<longrightarrow> twitter_batch_bounded srv query max_results s) \<longrightarrow>
         (\<forall>r. twitter_search_all srv log query max_results = Some r \<longrightarrow>
              int (length (yielded r)) \<le> max_results))
    \<and> ((\<forall>s. (twitter_next srv query max_results)\<^sup>*\<^sup>* (twitter_start log) s \<longrightarrow>
            tw_count s < max_results \<longrightarrow> twitter_batch_delivered srv query max_results s) \<longrightarrow>
         (\<exists>r. twitter_search_all srv log query max_results = Some r
              \<and> int (length (yielded r)) = max_results \<and> outcome r = Finished))
    \<and> ((\<forall>s. (indeed_next srv iclient query location max_results)\<^sup>*\<^sup>* (indeed_start log) s \<longrightarrow>
            in_count s < max_results \<longrightarrow>
            indeed_batch_delivered srv iclient query location max_results s) \<longrightarrow>
         int (length (yielded (indeed_search_all srv iclient log query location max_results)))
           = max_results
         \<and> outcome (indeed_search_all srv iclient log query location max_results) = Finished)
    \<and> ((\<forall>s. (yelp_next srv yclient query location max_results)\<^sup>*\<^sup>* (yelp_start log) s \<longrightarrow>
            yp_count s < max_results \<longrightarrow>
            yelp_batch_delivered srv yclient query location max_results s) \<longrightarrow>
         int (length (yielded (yelp_search_all srv yclient log query location max_results)))
           = max_results
         \<and> outcome (yelp_search_all srv yclient log query location max_results) = Finished)"
proof (intro conjI impI allI)
  show "int (length (yielded (indeed_search_all srv iclient log query location max_results)))
      \<le> max_results"
    unfolding indeed_search_all_def using assms by (intro indeed_loop_bound) simp_all
  show "int (length (yielded (yelp_search_all srv yclient log query location max_results)))
      \<le> max_results"
    unfolding yelp_search_all_def using assms by (intro yelp_loop_bound) simp_all
next
  fix s
  assume "(twitter_next srv query max_results)\<^sup>*\<^sup>* (twitter_start log) s"
  from twitter_between_batches [OF this] assms
  show "int (length (tw_yielded s)) = tw_count s" and "tw_count s \<le> max_results"
    by (simp_all add: twitter_start_def)
next
  fix r
  assume "\<forall>s. (twitter_next srv query max_results)\<^sup>*\<^sup>* (twitter_start log) s \<longrightarrow>
            tw_count s < max_results \<longrightarrow> twitter_batch_bounded srv query max_results s"
    and "twitter_search_all srv log query max_results = Some r"
  with assms show "int (length (yielded r)) \<le> max_results"
    unfolding twitter_search_all_def twitter_start_def by (auto dest: twitter_loop_bound)
next
  assume "\<forall>s. (twitter_next srv query max_results)\<^sup>*\<^sup>* (twitter_start log) s \<longrightarrow>
            tw_count s < max_results \<longrightarrow> twitter_batch_delivered srv query max_results s"
  from twitter_loop_delivered [OF this] assms
  show "\<exists>r. twitter_search_all srv log query max_results = Some r
              \<and> int (length (yielded r)) = max_results \<and> outcome r = Finished"
    unfolding twitter_search_all_def twitter_start_def by simp
next
  assume d: "\<forall>s. (indeed_next srv iclient query location max_results)\<^sup>*\<^sup>* (indeed_start log) s \<longrightarrow>
            in_count s < max_results \<longrightarrow>
            indeed_batch_delivered srv iclient query location max_results s"
  from indeed_loop_delivered [OF d] assms
  show "int (length (yielded (indeed_search_all srv iclient log query location max_results)))
           = max_results"
    and "outcome (indeed_search_all srv iclient log query location max_results) = Finished"
    unfolding indeed_search_all_def indeed_start_def by simp_all
next
  assume d: "\<forall>s. (yelp_next srv yclient query location max_results)\<^sup>*\<^sup>* (yelp_start log) s \<longrightarrow>
            yp_count s < max_results \<longrightarrow>
            yelp_batch_delivered srv yclient query location max_results s"
  from yelp_loop_delivered [OF d] assms
  show "int (length (yielded (yelp_search_all srv yclient log query location max_results)))
           = max_results"
    and "outcome (yelp_search_all srv yclient log query location max_results) = Finished"
    unfolding yelp_search_all_def yelp_start_def by simp_all
qed

theorem C1_yield_count_witness:
  "int (length (yielded (indeed_search_all (indeed_board 25)
          \<lparr>in_csrf_token = None, in_indeed_csrf_token = None\<rparr> [] ''q'' ''NYC'' 25))) = 25
   \<and> outcome (indeed_search_all (indeed_board 25)
          \<lparr>in_csrf_token = None, in_indeed_csrf_token = None\<rparr> [] ''q'' ''NYC'' 25) = Finished
   \<and> int (length (yielded (yelp_search_all (yelp_directory 25)
          \<lparr>yp_csrf_token = None\<rparr> [] ''q'' ''NYC'' 25))) = 25
   \<and> outcome (yelp_search_all (yelp_directory 25)
          \<lparr>yp_csrf_token = None\<rparr> [] ''q'' ''NYC'' 25) = Finished
   \<and> (\<exists>r. twitter_search_all (twitter_archive 25) [] ''q'' 25 = Some r
          \<and> int (length (yielded r)) = 25 \<and> outcome r = Finished)
   \<and> (\<exists>r. twitter_search_all (twitter_archive 25) [] ''q'' 25 = Some r
          \<and> int (length (yielded r)) \<le> 25)
   \<and> (\<exists>s. twitter_next (twitter_archive 25) ''q'' 25 (twitter_start []) s
          \<and> int (length (tw_yielded s)) = tw_count s \<and> tw_count s \<le> 25)
   \<and> int (length (yielded (indeed_search_all (indeed_board 25)
          \<lparr>in_csrf_token = None, in_indeed_csrf_token = None\<rparr> [] ''q'' ''NYC'' 30))) \<le> 30
   \<and> int (length (yielded (yelp_search_all (yelp_directory 25)
          \<lparr>yp_csrf_token = None\<rparr> [] ''q'' ''NYC'' 30))) \<le> 30"
proof -
  have pos: "(0::int) \<le> 25" and pos30: "(0::int) \<le> 30" by simp_all
  have t: "\<forall>s. (twitter_next (twitter_archive 25) ''q'' 25)\<^sup>*\<^sup>* (twitter_start []) s \<longrightarrow>
             tw_count s < 25 \<longrightarrow> twitter_batch_delivered (twitter_archive 25) ''q'' 25 s"
    using twitter_archive_run by blast
  have b: "\<forall>s. (twitter_next (twitter_archive 25) ''q'' 25)\<^sup>*\<^sup>* (twitter_start []) s \<longrightarrow>
             tw_count s < 25 \<longrightarrow> twitter_batch_bounded (twitter_archive 25) ''q'' 25 s"
    using twitter_archive_run by blast
  have i: "\<forall>s. (indeed_next (indeed_board 25)
                   \<lparr>in_csrf_token = None, in_indeed_csrf_token = None\<rparr>
                   ''q'' ''NYC'' 25)\<^sup>*\<^sup>* (indeed_start []) s \<longrightarrow>
             in_count s < 25 \<longrightarrow>
             indeed_batch_delivered (indeed_board 25)
               \<lparr>in_csrf_token = None, in_indeed_csrf_token = None\<rparr> ''q'' ''NYC'' 25 s"
    using indeed_board_run by blast
  have y: "\<forall>s. (yelp_next (yelp_directory 25) \<lparr>yp_csrf_token = None\<rparr>
                   ''q'' ''NYC'' 25)\<^sup>*\<^sup>* (yelp_start []) s \<longrightarrow>
             yp_count s < 25 \<longrightarrow>
             yelp_batch_delivered (yelp_directory 25) \<lparr>yp_csrf_token = None\<rparr> ''q'' ''NYC'' 25 s"
    using yelp_directory_run by blast
  have first: "case twitter_step (twitter_archive 25) ''q'' 25 (twitter_start []) of
                 Continue s \<Rightarrow> True | Stop r \<Rightarrow> False"
    by code_simp
  then obtain s1 where
    "twitter_step (twitter_archive 25) ''q'' 25 (twitter_start []) = Continue s1"
    by (auto split: step.splits)
  then have nxt: "twitter_next (twitter_archive 25) ''q'' 25 (twitter_start []) s1"
    by (simp add: twitter_next_def twitter_start_def)
  then have reach: "(twitter_next (twitter_archive 25) ''q'' 25)\<^sup>*\<^sup>* (twitter_start []) s1"
    by (rule r_into_rtranclp)
  note indeed = C1_yield_count [OF pos, of "indeed_board 25" _ "[]" "''q''" "''NYC''",
         THEN conjunct2, THEN conjunct2, THEN conjunct2, THEN conjunct2, THEN conjunct2,
         THEN conjunct1, THEN mp, OF i]
  note yelp = C1_yield_count [OF pos, of "yelp_directory 25" _ "[]" "''q''" "''NYC''"
           "\<lparr>yp_csrf_token = None\<rparr>",
         THEN conjunct2, THEN conjunct2, THEN conjunct2, THEN conjunct2, THEN conjunct2,
         THEN conjunct2, THEN mp, OF y]
  note twitter = C1_yield_count [OF pos, of "twitter_archive 25" _ "[]" "''q''",
         THEN conjunct2, THEN conjunct2, THEN conjunct2, THEN conjunct2, THEN conjunct1,
         THEN mp, OF t]
  note bound = C1_yield_count [OF pos, of "twitter_archive 25" _ "[]" "''q''",
         THEN conjunct2, THEN conjunct2, THEN conjunct2, THEN conjunct1,
         THEN mp, OF b, rule_format]
  note between = C1_yield_count [OF pos, of "twitter_archive 25" _ "[]" "''q''",
         THEN conjunct2, THEN conjunct2, THEN conjunct1, rule_format, OF reach]
  note indeed30 = C1_yield_count [OF pos30, of "indeed_board 25"
           "\<lparr>in_csrf_token = None, in_indeed_csrf_token = None\<rparr>" "[]" "''q''" "''NYC''",
         THEN conjunct1]
  note yelp30 = C1_yield_count [OF pos30, of "yelp_directory 25" _ "[]" "''q''" "''NYC''"
           "\<lparr>yp_csrf_token = None\<rparr>", THEN conjunct2, THEN conjunct1]
  from twitter obtain r where r: "twitter_search_all (twitter_archive 25) [] ''q'' 25 = Some r"
    "int (length (yielded r)) = 25" "outcome r = Finished" by blast
  from bound [OF r(1)] have "int (length (yielded r)) \<le> 25" .
  with indeed yelp r nxt between indeed30 yelp30 show ?thesis by blast
qed

theorem C1_exact_count_counterexample:
  "length (yielded (yelp_search_all (yelp_listing 10) \<lparr>yp_csrf_token = None\<rparr> []
                      ''pizza'' ''NYC'' 20)) = 10
   \<and> calls (yelp_search_all (yelp_listing 10) \<lparr>yp_csrf_token = None\<rparr> [] ''pizza'' ''NYC'' 20)
       = [YelpSearch ''pizza'' ''NYC'' 0]
   \<and> outcome (yelp_search_all (yelp_listing 10) \<lparr>yp_csrf_token = None\<rparr> []
                 ''pizza'' ''NYC'' 20) = Finished
   \<and> bindE (fst (yelp_search (yelp_listing 10) [YelpSearch ''pizza'' ''NYC'' 0]
                 ''pizza'' ''NYC'' 10 10))
        (\<lambda>response_data. bindE (py_get response_data ''businesses'' JNull) py_len) = Inr 10
   \<and> map_option (\<lambda>r. length (yielded r)) (twitter_search_all twitter_two [] ''q'' 1) = Some 2"
  by code_simp

end
